theory Spec2Isabelle
  imports Main "HOL-Library.AList"
begin

section \<open>Errors and JavaScript containers\<close>

text \<open>
  The plugin raises \<open>UnsupportedSyntaxError\<close> (with a message) for declaration shapes
  it does not handle. A \<open>TypeError\<close> is what the JavaScript runtime itself raises when
  a property of \<open>undefined\<close> is read or destructured.
\<close>

datatype error = UnsupportedSyntaxError string | TypeError

text \<open>
  A JavaScript \<open>Set\<close> of strings keeps its elements in insertion order and ignores a
  second \<open>add\<close> of the same element; it is modelled as a duplicate-free list.
\<close>

definition set_add :: "'a \<Rightarrow> 'a list \<Rightarrow> 'a list" where
  "set_add x xs = (if x \<in> set xs then xs else xs @ [x])"

definition set_has :: "'a list \<Rightarrow> 'a \<Rightarrow> bool" where
  "set_has xs x = (x \<in> set xs)"

section \<open>Synthesized names: \<open>uniqName\<close>\<close>

text \<open>
  \<^verbatim>\<open>
  function uniqName(hint) {
      let name = hint;
      while (declaredNames.has(name)) { name = `_${name}`; }
      declaredNames.add(name);
      return name;
  }
  \<close>
  The loop is the recursive function \<open>uniqName_loop\<close>; it terminates because every
  round makes the candidate one character longer and the set is finite.
\<close>

function uniqName_loop :: "string list \<Rightarrow> string \<Rightarrow> string" where
  "uniqName_loop declaredNames name =
     (if set_has declaredNames name
      then uniqName_loop declaredNames (CHR ''_'' # name)
      else name)"
  by pat_completeness auto

lemma longer_names_decrease:
  "(name :: string) \<in> set ns \<Longrightarrow>
   length (filter (\<lambda>x. Suc (length name) \<le> length x) ns)
     < length (filter (\<lambda>x. length name \<le> length x) ns)"
proof (induction ns)
  case Nil
  then show ?case by simp
next
  case (Cons a ns)
  have le: "length (filter (\<lambda>x. Suc (length name) \<le> length x) ms)
              \<le> length (filter (\<lambda>x. length name \<le> length x) ms)" for ms :: "string list"
    by (induction ms) auto
  show ?case
  proof (cases "name = a")
    case True
    then show ?thesis using le [of ns] by simp
  next
    case False
    with Cons have "length (filter (\<lambda>x. Suc (length name) \<le> length x) ns)
                      < length (filter (\<lambda>x. length name \<le> length x) ns)"
      by simp
    then show ?thesis by simp
  qed
qed

termination uniqName_loop
  by (relation "measure (\<lambda>(ns, name). length (filter (\<lambda>x. length name \<le> length x) ns))")
     (auto simp: set_has_def longer_names_decrease)

declare uniqName_loop.simps [simp del]

definition uniqName :: "string \<Rightarrow> string list \<Rightarrow> string \<times> string list" where
  "uniqName hint declaredNames =
     (let name = uniqName_loop declaredNames hint
      in (name, set_add name declaredNames))"

text \<open>The hint with \<open>k\<close> underscores in front.\<close>

definition underscored :: "nat \<Rightarrow> string \<Rightarrow> string" where
  "underscored k hint = replicate k (CHR ''_'') @ hint"

lemma uniqName_loop_least:
  "\<exists>k. uniqName_loop ns name = underscored k name
       \<and> underscored k name \<notin> set ns
       \<and> (\<forall>j<k. underscored j name \<in> set ns)"
proof (induction ns name rule: uniqName_loop.induct)
  case (1 ns name)
  show ?case
  proof (cases "name \<in> set ns")
    case False
    then have "uniqName_loop ns name = underscored 0 name"
      by (subst uniqName_loop.simps) (simp add: underscored_def set_has_def)
    with False show ?thesis
      by (metis not_less_zero underscored_def append_Nil replicate_0)
  next
    case True
    then obtain k where k: "uniqName_loop ns (CHR ''_'' # name) = underscored k (CHR ''_'' # name)"
        "underscored k (CHR ''_'' # name) \<notin> set ns"
        "\<forall>j<k. underscored j (CHR ''_'' # name) \<in> set ns"
      using 1 by (auto simp: set_has_def)
    have shift: "underscored j (CHR ''_'' # name) = underscored (Suc j) name" for j
      by (simp add: underscored_def replicate_append_same)
    have "uniqName_loop ns name = underscored (Suc k) name"
      using True k(1) shift by (subst uniqName_loop.simps) (simp add: set_has_def)
    moreover have "underscored (Suc k) name \<notin> set ns"
      using k(2) shift by simp
    moreover have "\<forall>j<Suc k. underscored j name \<in> set ns"
    proof (intro allI impI)
      fix j assume "j < Suc k"
      show "underscored j name \<in> set ns"
      proof (cases j)
        case 0
        then show ?thesis using True by (simp add: underscored_def)
      next
        case (Suc i)
        with \<open>j < Suc k\<close> have "i < k" by simp
        with k(3) shift Suc show ?thesis by metis
      qed
    qed
    ultimately show ?thesis by blast
  qed
qed


section \<open>Synthetic identifiers: the counter \<open>IDs\<close>\<close>

text \<open>
  \<open>String(n)\<close> of a non-negative integer is its decimal numeral. The module-level
  counter \<open>IDs\<close> is a JavaScript number that starts at 1; it is modelled as a natural
  number, which is exact as long as the counter stays below \<open>2^53\<close>.
\<close>

definition digit_char :: "nat \<Rightarrow> char" where
  "digit_char d = char_of (48 + d)"

fun String_of_nat :: "nat \<Rightarrow> string" where
  "String_of_nat n =
     (if n < 10 then [digit_char n] else String_of_nat (n div 10) @ [digit_char (n mod 10)])"

declare String_of_nat.simps [simp del]

definition MAX_SAFE_INTEGER :: nat where
  "MAX_SAFE_INTEGER = 2 ^ 53 - 1"

lemma digit_char_inj: "a < 10 \<Longrightarrow> b < 10 \<Longrightarrow> digit_char a = digit_char b \<Longrightarrow> a = b"
proof -
  assume a: "a < 10" and b: "b < 10" and eq: "digit_char a = digit_char b"
  from eq have "of_char (char_of (48 + a) :: char) = (of_char (char_of (48 + b) :: char) :: nat)"
    by (simp add: digit_char_def)
  with a b show "a = b" by simp
qed

lemma String_of_nat_nonempty: "String_of_nat n \<noteq> []"
  by (subst String_of_nat.simps) simp

lemma String_of_nat_inj: "String_of_nat n = String_of_nat m \<Longrightarrow> n = m"
proof (induction n arbitrary: m rule: String_of_nat.induct)
  case (1 n)
  show ?case
  proof (cases "n < 10")
    case small_n: True
    show ?thesis
    proof (cases "m < 10")
      case True
      with small_n "1.prems" have "digit_char n = digit_char m"
        by (simp add: String_of_nat.simps [of n] String_of_nat.simps [of m])
      with small_n True show ?thesis by (rule digit_char_inj)
    next
      case False
      with small_n "1.prems" have "[digit_char n] = String_of_nat (m div 10) @ [digit_char (m mod 10)]"
        by (simp add: String_of_nat.simps [of n] String_of_nat.simps [of m])
      then have "String_of_nat (m div 10) = []" by simp
      with String_of_nat_nonempty show ?thesis by blast
    qed
  next
    case big_n: False
    show ?thesis
    proof (cases "m < 10")
      case True
      with big_n "1.prems" have "String_of_nat (n div 10) @ [digit_char (n mod 10)] = [digit_char m]"
        by (simp add: String_of_nat.simps [of n] String_of_nat.simps [of m])
      then have "String_of_nat (n div 10) = []" by simp
      with String_of_nat_nonempty show ?thesis by blast
    next
      case False
      with big_n "1.prems" have eq: "String_of_nat (n div 10) @ [digit_char (n mod 10)]
                               = String_of_nat (m div 10) @ [digit_char (m mod 10)]"
        by (simp add: String_of_nat.simps [of n] String_of_nat.simps [of m])
      then have "String_of_nat (n div 10) = String_of_nat (m div 10)"
        and d: "digit_char (n mod 10) = digit_char (m mod 10)" by simp_all
      with big_n "1.IH" have q: "n div 10 = m div 10" by blast
      have "n mod 10 = m mod 10" using d by (intro digit_char_inj) simp_all
      with q show ?thesis by (metis div_mult_mod_eq)
    qed
  qed
qed

section \<open>The ESTree side: what the Graph Builder emits\<close>

text \<open>
  An ESTree expression is an \<open>Identifier\<close> (with its source range when it was made by
  \<open>createIdentifier\<close>), a \<open>MemberExpression\<close> (object, property, start, end) or a
  \<open>Literal\<close>. A reference is the parameter \<open>_ = id\<close> that \<open>createReference\<close> builds:
  an \<open>AssignmentPattern\<close> whose left side is a fresh identifier named after the counter
  and whose right side is the referenced expression.
\<close>

datatype es_expr =
    Identifier string "(nat \<times> nat) option"
  | MemberExpression es_expr es_expr nat nat
  | Literal string

datatype es_param = AssignmentPattern (left: es_expr) (right: es_expr)

record globals =
  IDs :: nat

text \<open>
  \<^verbatim>\<open>
  function createReference(id) {
      return { type: "AssignmentPattern",
               left: { type: "Identifier", name: String(IDs++) },
               right: id };
  }
  \<close>
\<close>

definition createReference :: "es_expr \<Rightarrow> nat \<Rightarrow> es_param \<times> nat" where
  "createReference ident counter =
     (AssignmentPattern (Identifier (String_of_nat counter) None) ident, counter + 1)"

section \<open>The TypeScript side: the parts of the syntax tree the Graph Builder reads\<close>

text \<open>
  An identifier node gives its source text (\<open>getText()\<close>), its unescaped text
  (\<open>ts.idText\<close>) and its range (\<open>getStart()\<close>, \<open>getEnd()\<close>).
\<close>

datatype ts_identifier =
  TsIdentifier (getText: string) (idText: string) (idStart: nat) (idEnd: nat)

datatype ts_entity_name =
    EntityIdentifier ts_identifier
  | QualifiedName ts_entity_name ts_identifier nat nat

datatype ts_member_name = MemberIdentifier ts_identifier | PrivateIdentifier

datatype ts_expression =
    LiteralExpression string nat nat
  | IdentifierExpression ts_identifier
  | PropertyAccessExpression ts_expression ts_member_name nat nat
  | OtherExpression nat nat

datatype ts_property_name = ComputedPropertyName ts_expression | PlainPropertyName

text \<open>
  Type nodes. \<open>IgnoredTypeNode\<close> stands for every kind in \<open>IGNORE_TYPENODES\<close>
  (literal types and keyword types); \<open>UnsupportedTypeNode\<close> for every kind that no
  branch of \<open>convertTypeNode\<close> recognises. A field that may be \<open>undefined\<close> in the
  syntax tree is an \<open>option\<close>. A signature carries \<open>typeParameters\<close>, the types of its
  \<open>parameters\<close> and its return \<open>type\<close>.
\<close>

datatype ts_type =
    IgnoredTypeNode
  | TypeReference ts_entity_name "ts_type list option"
  | TypeLiteral "ts_member list"
  | ArrayType ts_type
  | TupleType "ts_type list"
  | NamedTupleMember ts_type
  | ParenthesizedType ts_type
  | TypeOperator ts_type
  | TypePredicate "ts_type option"
  | UnionType "ts_type list"
  | IntersectionType "ts_type list"
  | MappedType ts_type_parameter "ts_type option" "ts_type option"
  | ConditionalType ts_type ts_type ts_type ts_type
  | IndexedAccessType ts_type ts_type
  | FunctionOrConstructorType ts_signature
  | TypeQuery ts_entity_name
  | RestType ts_type
  | OptionalType ts_type
  | TemplateLiteralType "ts_type list"
  | InferType ts_identifier
  | UnsupportedTypeNode
and ts_member =
    PropertyMember "ts_property_name option" "ts_type option"
  | SignatureMember "ts_property_name option" ts_signature
  | UnsupportedMember
and ts_signature =
    Signature "ts_type_parameter list option" "ts_type option list" "ts_type option"
and ts_type_parameter =
    TypeParameter ts_identifier "ts_type option" "ts_type option"

datatype ts_heritage_type = ExpressionWithTypeArguments ts_expression "ts_type list option"

datatype ts_module_name = ModuleIdentifier ts_identifier | ModuleStringLiteral

datatype ts_binding_name = BindingIdentifier ts_identifier | BindingPattern

datatype ts_variable_declaration = VariableDeclaration ts_binding_name "ts_type option"

datatype ts_export_specifier = ExportSpecifier "ts_identifier option" ts_identifier

datatype ts_export_clause = NamespaceExport ts_identifier | NamedExports "ts_export_specifier list"

datatype ts_import_specifier = ImportSpecifier "ts_identifier option" ts_identifier

datatype ts_named_bindings = NamedImports "ts_import_specifier list" | NamespaceImport ts_identifier

datatype ts_import_clause = ImportClause "ts_identifier option" "ts_named_bindings option"

datatype ts_module_reference = ExternalModuleReference ts_expression | EntityNameReference

text \<open>
  A statement carries \<open>getFullStart()\<close>, \<open>getStart()\<close>, \<open>getEnd()\<close> and its kind.
  \<open>InterfaceOrClassDeclaration\<close> covers the two kinds the Graph Builder always treats
  alike. A module declaration carries the \<open>GlobalAugmentation\<close> flag, its name and, when
  its body is a \<open>ModuleBlock\<close>, the statements of that block.
\<close>

datatype ts_statement =
  Statement (getFullStart: nat) (getStart: nat) (getEnd: nat) (kind: ts_statement_kind)
and ts_statement_kind =
    EnumDeclaration ts_identifier
  | FunctionDeclaration "ts_identifier option" ts_signature
  | InterfaceOrClassDeclaration "ts_identifier option" "ts_type_parameter list option"
      "ts_heritage_type list list option" "ts_member list"
  | TypeAliasDeclaration ts_identifier "ts_type_parameter list option" ts_type
  | VariableStatement "ts_variable_declaration list"
  | ExportDeclaration "ts_export_clause option" "ts_expression option"
  | ExportAssignment ts_expression
  | ModuleDeclaration bool ts_module_name "ts_statement list option"
  | NamespaceExportDeclaration
  | ImportDeclaration ts_expression "ts_import_clause option"
  | ImportEqualsDeclaration ts_identifier ts_module_reference
  | OtherStatement

section \<open>The Scope Tracker and the walk of one declaration\<close>

text \<open>
  The methods of \<open>DeclarationScope\<close> touch three things: the stack \<open>this.scopes\<close>, the
  list \<open>this.declaration.params\<close> and the counter \<open>IDs\<close>. They are modelled as functions
  on a record of the three. The stack is a list with the innermost scope first
  (\<open>scopes.push\<close> is \<open>#\<close>, \<open>scopes.pop\<close> is \<open>tl\<close>; popping an empty array does
  nothing, as \<open>tl []\<close> does).
\<close>

record scope_state = globals +
  scopes :: "string list list"
  params :: "es_param list"

definition pushScope :: "scope_state \<Rightarrow> scope_state" where
  "pushScope s = s\<lparr>scopes := [] # scopes s\<rparr>"

fun popScope :: "nat \<Rightarrow> scope_state \<Rightarrow> scope_state" where
  "popScope 0 s = s"
| "popScope (Suc n) s = popScope n (s\<lparr>scopes := tl (scopes s)\<rparr>)"

definition pushTypeVariable :: "ts_identifier \<Rightarrow> scope_state \<Rightarrow> scope_state" where
  "pushTypeVariable ident s =
     (case scopes s of
        [] \<Rightarrow> s
      | innermost # rest \<Rightarrow> s\<lparr>scopes := set_add (getText ident) innermost # rest\<rparr>)"

definition pushRaw :: "es_param \<Rightarrow> scope_state \<Rightarrow> scope_state" where
  "pushRaw expr s = s\<lparr>params := params s @ [expr]\<rparr>"

text \<open>
  \<open>pushReference\<close> looks for the left-most identifier of the expression: the name of an
  \<open>Identifier\<close>, or the name of the object of a \<open>MemberExpression\<close> when that object is
  an \<open>Identifier\<close>; in every other case \<open>name\<close> stays \<open>undefined\<close>. The reference is
  dropped when the name is a non-empty string that some scope of the stack has.
\<close>

fun leftmost_name :: "es_expr \<Rightarrow> string option" where
  "leftmost_name (Identifier name _) = Some name"
| "leftmost_name (MemberExpression (Identifier name _) _ _ _) = Some name"
| "leftmost_name _ = None"

definition is_bound :: "string list list \<Rightarrow> string \<Rightarrow> bool" where
  "is_bound stack name = (\<exists>scope \<in> set stack. set_has scope name)"

definition pushReference :: "es_expr \<Rightarrow> scope_state \<Rightarrow> scope_state" where
  "pushReference ident s =
     (let emit = (let (ref, counter) = createReference ident (IDs s)
                  in pushRaw ref (s\<lparr>IDs := counter\<rparr>))
      in case leftmost_name ident of
           Some name \<Rightarrow> if name \<noteq> [] \<and> is_bound (scopes s) name then s else emit
         | None \<Rightarrow> emit)"

definition createIdentifier :: "ts_identifier \<Rightarrow> es_expr" where
  "createIdentifier node = Identifier (getText node) (Some (idStart node, idEnd node))"

definition pushIdentifierReference :: "ts_identifier \<Rightarrow> scope_state \<Rightarrow> scope_state" where
  "pushIdentifierReference ident s = pushReference (createIdentifier ident) s"

fun convertEntityName :: "ts_entity_name \<Rightarrow> es_expr" where
  "convertEntityName (EntityIdentifier node) = createIdentifier node"
| "convertEntityName (QualifiedName l r s e) =
     MemberExpression (convertEntityName l) (createIdentifier r) s e"

fun expr_getStart :: "ts_expression \<Rightarrow> nat" where
  "expr_getStart (LiteralExpression _ s _) = s"
| "expr_getStart (IdentifierExpression i) = idStart i"
| "expr_getStart (PropertyAccessExpression _ _ s _) = s"
| "expr_getStart (OtherExpression s _) = s"

definition unsupported :: error where
  "unsupported = UnsupportedSyntaxError ''Syntax not yet supported''"

fun convertExpression :: "ts_expression \<Rightarrow> error + es_expr" where
  "convertExpression (LiteralExpression text _ _) = Inr (Literal text)"
| "convertExpression (PropertyAccessExpression expression PrivateIdentifier _ _) = Inl unsupported"
| "convertExpression (PropertyAccessExpression expression (MemberIdentifier name) _ _) =
     (case convertExpression expression of
        Inl err \<Rightarrow> Inl err
      | Inr object \<Rightarrow>
          Inr (MemberExpression object (createIdentifier name) (expr_getStart expression) (idEnd name)))"
| "convertExpression (IdentifierExpression node) = Inr (createIdentifier node)"
| "convertExpression (OtherExpression _ _) = Inl unsupported"

text \<open>
  \<open>convertPropertyAccess\<close> is only called on property access expressions; the last
  equation is there to make the function total.
\<close>

fun convertPropertyAccess :: "ts_expression \<Rightarrow> error + es_expr" where
  "convertPropertyAccess (PropertyAccessExpression (LiteralExpression _ _ _) _ _ _) = Inl unsupported"
| "convertPropertyAccess (PropertyAccessExpression (OtherExpression _ _) _ _ _) = Inl unsupported"
| "convertPropertyAccess (PropertyAccessExpression _ PrivateIdentifier _ _) = Inl unsupported"
| "convertPropertyAccess (PropertyAccessExpression (IdentifierExpression obj) (MemberIdentifier name) s e) =
     Inr (MemberExpression (createIdentifier obj) (createIdentifier name) s e)"
| "convertPropertyAccess (PropertyAccessExpression (PropertyAccessExpression a b c d) (MemberIdentifier name) s e) =
     (case convertPropertyAccess (PropertyAccessExpression a b c d) of
        Inl err \<Rightarrow> Inl err
      | Inr object \<Rightarrow> Inr (MemberExpression object (createIdentifier name) s e))"
| "convertPropertyAccess _ = Inl TypeError"

fun convertComputedPropertyName :: "ts_property_name option \<Rightarrow> scope_state \<Rightarrow> error + scope_state" where
  "convertComputedPropertyName None s = Inr s"
| "convertComputedPropertyName (Some PlainPropertyName) s = Inr s"
| "convertComputedPropertyName (Some (ComputedPropertyName (LiteralExpression _ _ _))) s = Inr s"
| "convertComputedPropertyName (Some (ComputedPropertyName (IdentifierExpression ident))) s =
     Inr (pushReference (createIdentifier ident) s)"
| "convertComputedPropertyName (Some (ComputedPropertyName (PropertyAccessExpression a b c d))) s =
     (case convertPropertyAccess (PropertyAccessExpression a b c d) of
        Inl err \<Rightarrow> Inl err
      | Inr ref \<Rightarrow> Inr (pushReference ref s))"
| "convertComputedPropertyName (Some (ComputedPropertyName (OtherExpression _ _))) s = Inl unsupported"

text \<open>Running one step after another; an exception ends the walk.\<close>

definition andThen ::
  "error + scope_state \<Rightarrow> (scope_state \<Rightarrow> error + scope_state) \<Rightarrow> error + scope_state" where
  "andThen r f = (case r of Inl err \<Rightarrow> Inl err | Inr s \<Rightarrow> f s)"

fun convertTypeNode :: "ts_type \<Rightarrow> scope_state \<Rightarrow> error + scope_state"
  and convertTypeNode_opt :: "ts_type option \<Rightarrow> scope_state \<Rightarrow> error + scope_state"
  and convertTypeNodes :: "ts_type list \<Rightarrow> scope_state \<Rightarrow> error + scope_state"
  and convertParameterTypes :: "ts_type option list \<Rightarrow> scope_state \<Rightarrow> error + scope_state"
  and convertTypeArguments :: "ts_type list option \<Rightarrow> scope_state \<Rightarrow> error + scope_state"
  and convertMembers :: "ts_member list \<Rightarrow> scope_state \<Rightarrow> error + scope_state"
  and convertParametersAndType ::
    "ts_property_name option \<Rightarrow> ts_signature \<Rightarrow> scope_state \<Rightarrow> error + scope_state"
  and convertTypeParameters ::
    "ts_type_parameter list option \<Rightarrow> scope_state \<Rightarrow> error + nat \<times> scope_state"
  and convertTypeParameters_each :: "ts_type_parameter list \<Rightarrow> scope_state \<Rightarrow> error + scope_state"
where
  "convertTypeNode IgnoredTypeNode s = Inr s"
| "convertTypeNode (TypeReference typeName typeArguments) s =
     convertTypeArguments typeArguments (pushReference (convertEntityName typeName) s)"
| "convertTypeNode (TypeLiteral members) s = convertMembers members s"
| "convertTypeNode (ArrayType elementType) s = convertTypeNode elementType s"
| "convertTypeNode (TupleType elements) s = convertTypeNodes elements s"
| "convertTypeNode (NamedTupleMember type) s = convertTypeNode type s"
| "convertTypeNode (ParenthesizedType type) s = convertTypeNode type s"
| "convertTypeNode (TypeOperator type) s = convertTypeNode type s"
| "convertTypeNode (TypePredicate type) s = convertTypeNode_opt type s"
| "convertTypeNode (UnionType types) s = convertTypeNodes types s"
| "convertTypeNode (IntersectionType types) s = convertTypeNodes types s"
| "convertTypeNode (MappedType (TypeParameter name constraint dflt) type nameType) s =
     andThen (convertTypeNode_opt constraint s) (\<lambda>s.
     andThen (convertTypeNode_opt type (pushTypeVariable name (pushScope s))) (\<lambda>s.
     andThen (convertTypeNode_opt nameType s) (\<lambda>s.
     Inr (popScope 1 s))))"
| "convertTypeNode (ConditionalType checkType extendsType trueType falseType) s =
     andThen (convertTypeNode checkType s) (\<lambda>s.
     andThen (convertTypeNode extendsType (pushScope s)) (\<lambda>s.
     andThen (convertTypeNode trueType s) (\<lambda>s.
     andThen (convertTypeNode falseType s) (\<lambda>s.
     Inr (popScope 1 s)))))"
| "convertTypeNode (IndexedAccessType objectType indexType) s =
     andThen (convertTypeNode objectType s) (\<lambda>s. convertTypeNode indexType s)"
| "convertTypeNode (FunctionOrConstructorType sig) s = convertParametersAndType None sig s"
| "convertTypeNode (TypeQuery exprName) s = Inr (pushReference (convertEntityName exprName) s)"
| "convertTypeNode (RestType type) s = convertTypeNode type s"
| "convertTypeNode (OptionalType type) s = convertTypeNode type s"
| "convertTypeNode (TemplateLiteralType spanTypes) s = convertTypeNodes spanTypes s"
| "convertTypeNode (InferType name) s = Inr (pushTypeVariable name s)"
| "convertTypeNode UnsupportedTypeNode s = Inl unsupported"
| "convertTypeNode_opt None s = Inr s"
| "convertTypeNode_opt (Some node) s = convertTypeNode node s"
| "convertTypeNodes [] s = Inr s"
| "convertTypeNodes (node # nodes) s =
     andThen (convertTypeNode node s) (\<lambda>s. convertTypeNodes nodes s)"
| "convertParameterTypes [] s = Inr s"
| "convertParameterTypes (type # types) s =
     andThen (convertTypeNode_opt type s) (\<lambda>s. convertParameterTypes types s)"
| "convertTypeArguments None s = Inr s"
| "convertTypeArguments (Some args) s = convertTypeNodes args s"
| "convertMembers [] s = Inr s"
| "convertMembers (PropertyMember name type # members) s =
     andThen (convertComputedPropertyName name s) (\<lambda>s.
     andThen (convertTypeNode_opt type s) (\<lambda>s.
     convertMembers members s))"
| "convertMembers (SignatureMember name sig # members) s =
     andThen (convertParametersAndType name sig s) (\<lambda>s. convertMembers members s)"
| "convertMembers (UnsupportedMember # members) s = Inl unsupported"
| "convertParametersAndType name (Signature typeParameters parameters type) s =
     andThen (convertComputedPropertyName name s) (\<lambda>s.
     case convertTypeParameters typeParameters s of
       Inl err \<Rightarrow> Inl err
     | Inr (typeVariables, s) \<Rightarrow>
         andThen (convertParameterTypes parameters s) (\<lambda>s.
         andThen (convertTypeNode_opt type s) (\<lambda>s.
         Inr (popScope typeVariables s))))"
| "convertTypeParameters None s = Inr (0, s)"
| "convertTypeParameters (Some ps) s =
     (case convertTypeParameters_each ps s of
        Inl err \<Rightarrow> Inl err
      | Inr s \<Rightarrow> Inr (length ps, s))"
| "convertTypeParameters_each [] s = Inr s"
| "convertTypeParameters_each (TypeParameter name constraint dflt # ps) s =
     andThen (convertTypeNode_opt constraint s) (\<lambda>s.
     andThen (convertTypeNode_opt dflt s) (\<lambda>s.
     convertTypeParameters_each ps (pushTypeVariable name (pushScope s))))"


section \<open>Scope depth\<close>

lemmas convert_induct =
  convertTypeNode_convertTypeNode_opt_convertTypeNodes_convertParameterTypes_convertTypeArguments_convertMembers_convertParametersAndType_convertTypeParameters_convertTypeParameters_each.induct

definition depth :: "scope_state \<Rightarrow> nat" where
  "depth s = length (scopes s)"

lemma depth_pushScope [simp]: "depth (pushScope s) = Suc (depth s)"
  by (simp add: depth_def pushScope_def)

lemma scopes_popScope: "scopes (popScope n s) = drop n (scopes s)"
  by (induction n arbitrary: s) (simp_all add: drop_Suc drop_tl)

lemma depth_popScope [simp]: "depth (popScope n s) = depth s - n"
  by (simp add: depth_def scopes_popScope)

declare popScope.simps [simp del]

lemma depth_pushTypeVariable [simp]: "depth (pushTypeVariable name s) = depth s"
  by (simp add: depth_def pushTypeVariable_def split: list.splits)

lemma depth_pushReference [simp]: "depth (pushReference ident s) = depth s"
  by (simp add: depth_def pushReference_def pushRaw_def createReference_def Let_def
      split: option.splits)

lemma depth_convertComputedPropertyName:
  "convertComputedPropertyName name s = Inr s' \<Longrightarrow> depth s = depth s'"
  by (induction name s rule: convertComputedPropertyName.induct) (auto split: sum.splits)

lemma andThen_Inr:
  "andThen r f = Inr s' \<longleftrightarrow> (\<exists>s. r = Inr s \<and> f s = Inr s')"
  by (cases r) (simp_all add: andThen_def)

lemma andThenE:
  "andThen r f = Inr s' \<Longrightarrow> (\<And>s. r = Inr s \<Longrightarrow> f s = Inr s' \<Longrightarrow> P) \<Longrightarrow> P"
  by (cases r) (simp_all add: andThen_def)

lemma depth_convert:
  "(convertTypeNode node s = Inr s' \<longrightarrow> depth s = depth s')"
  "(convertTypeNode_opt node_opt s = Inr s' \<longrightarrow> depth s = depth s')"
  "(convertTypeNodes nodes s = Inr s' \<longrightarrow> depth s = depth s')"
  "(convertParameterTypes types s = Inr s' \<longrightarrow> depth s = depth s')"
  "(convertTypeArguments args s = Inr s' \<longrightarrow> depth s = depth s')"
  "(convertMembers members s = Inr s' \<longrightarrow> depth s = depth s')"
  "(convertParametersAndType name sig s = Inr s' \<longrightarrow> depth s = depth s')"
  "(convertTypeParameters tps s = Inr r \<longrightarrow> depth s + fst r = depth (snd r))"
  "(convertTypeParameters_each ps s = Inr s' \<longrightarrow> depth s + length ps = depth s')"
  apply (induction node s and node_opt s and nodes s and types s and args s and members s
         and name sig s and tps s and ps s
       arbitrary: s' and s' and s' and s' and s' and s' and s' and r and s'
       rule: convert_induct)
  apply (auto elim!: andThenE dest: depth_convertComputedPropertyName split: sum.splits prod.splits)
  subgoal premises prems
    using prems(2) [rule_format, OF prems(5)] prems(3) [rule_format, OF prems(6)]
    by arith
  subgoal premises prems
    using prems(2) [rule_format, OF prems(6)] prems(3) [rule_format, OF prems(7)]
      prems(4) [rule_format, OF prems(8)]
    by arith
  subgoal premises prems
    using depth_convertComputedPropertyName [OF prems(4)] prems(1) [rule_format, OF prems(5)]
      prems(2) [rule_format, OF prems(5) refl prems(6)]
      prems(3) [rule_format, OF prems(5) refl prems(7)]
    by arith
  done


subsection \<open>Heritage clauses, declaration bodies and namespaces\<close>

fun convertHeritageTypes :: "ts_heritage_type list \<Rightarrow> scope_state \<Rightarrow> error + scope_state" where
  "convertHeritageTypes [] s = Inr s"
| "convertHeritageTypes (ExpressionWithTypeArguments expression typeArguments # types) s =
     (case convertExpression expression of
        Inl err \<Rightarrow> Inl err
      | Inr ref \<Rightarrow>
          andThen (convertTypeArguments typeArguments (pushReference ref s)) (\<lambda>s.
          convertHeritageTypes types s))"

fun convertHeritageClauses_each ::
  "ts_heritage_type list list \<Rightarrow> scope_state \<Rightarrow> error + scope_state" where
  "convertHeritageClauses_each [] s = Inr s"
| "convertHeritageClauses_each (types # clauses) s =
     andThen (convertHeritageTypes types s) (\<lambda>s. convertHeritageClauses_each clauses s)"

definition convertHeritageClauses ::
  "ts_heritage_type list list option \<Rightarrow> scope_state \<Rightarrow> error + scope_state" where
  "convertHeritageClauses heritageClauses s =
     (case heritageClauses of
        None \<Rightarrow> Inr s
      | Some clauses \<Rightarrow> convertHeritageClauses_each clauses s)"

text \<open>
  The walk of a class or interface and the walk of a type alias are the same four lines
  at top level (\<open>convertClassOrInterfaceDeclaration\<close>, \<open>convertTypeAliasDeclaration\<close>)
  and inside a namespace (\<open>convertNamespace\<close>):
  \<^verbatim>\<open>
  const typeVariables = scope.convertTypeParameters(node.typeParameters);
  scope.convertHeritageClauses(node);
  scope.convertMembers(node.members);
  scope.popScope(typeVariables);
  \<close>
\<close>

definition convertClassOrInterfaceBody ::
  "ts_type_parameter list option \<Rightarrow> ts_heritage_type list list option \<Rightarrow> ts_member list
     \<Rightarrow> scope_state \<Rightarrow> error + scope_state" where
  "convertClassOrInterfaceBody typeParameters heritageClauses members s =
     (case convertTypeParameters typeParameters s of
        Inl err \<Rightarrow> Inl err
      | Inr (typeVariables, s) \<Rightarrow>
          andThen (convertHeritageClauses heritageClauses s) (\<lambda>s.
          andThen (convertMembers members s) (\<lambda>s.
          Inr (popScope typeVariables s))))"

definition convertTypeAliasBody ::
  "ts_type_parameter list option \<Rightarrow> ts_type \<Rightarrow> scope_state \<Rightarrow> error + scope_state" where
  "convertTypeAliasBody typeParameters type s =
     (case convertTypeParameters typeParameters s of
        Inl err \<Rightarrow> Inl err
      | Inr (typeVariables, s) \<Rightarrow>
          andThen (convertTypeNode type s) (\<lambda>s.
          Inr (popScope typeVariables s)))"

text \<open>The first loop of \<open>convertNamespace\<close>: hoisting the declared names.\<close>

fun hoistVariableDeclarations ::
  "ts_variable_declaration list \<Rightarrow> scope_state \<Rightarrow> error + scope_state" where
  "hoistVariableDeclarations [] s = Inr s"
| "hoistVariableDeclarations (VariableDeclaration (BindingIdentifier name) _ # decls) s =
     hoistVariableDeclarations decls (pushTypeVariable name s)"
| "hoistVariableDeclarations (VariableDeclaration BindingPattern _ # decls) s =
     Inl (UnsupportedSyntaxError ''non-Identifier name not supported'')"

fun hoistStatement :: "ts_statement_kind \<Rightarrow> scope_state \<Rightarrow> error + scope_state" where
  "hoistStatement (EnumDeclaration name) s = Inr (pushTypeVariable name s)"
| "hoistStatement (FunctionDeclaration (Some name) _) s = Inr (pushTypeVariable name s)"
| "hoistStatement (InterfaceOrClassDeclaration (Some name) _ _ _) s = Inr (pushTypeVariable name s)"
| "hoistStatement (TypeAliasDeclaration name _ _) s = Inr (pushTypeVariable name s)"
| "hoistStatement (ModuleDeclaration _ (ModuleIdentifier name) _) s = Inr (pushTypeVariable name s)"
| "hoistStatement (FunctionDeclaration None _) s =
     Inl (UnsupportedSyntaxError ''non-Identifier name not supported'')"
| "hoistStatement (InterfaceOrClassDeclaration None _ _ _) s =
     Inl (UnsupportedSyntaxError ''non-Identifier name not supported'')"
| "hoistStatement (ModuleDeclaration _ ModuleStringLiteral _) s =
     Inl (UnsupportedSyntaxError ''non-Identifier name not supported'')"
| "hoistStatement (VariableStatement declarations) s = hoistVariableDeclarations declarations s"
| "hoistStatement (ExportDeclaration _ _) s = Inr s"
| "hoistStatement _ s =
     Inl (UnsupportedSyntaxError ''namespace child (hoisting) not supported yet'')"

fun hoistStatements :: "ts_statement list \<Rightarrow> scope_state \<Rightarrow> error + scope_state" where
  "hoistStatements [] s = Inr s"
| "hoistStatements (stmt # stmts) s =
     andThen (hoistStatement (kind stmt) s) (\<lambda>s. hoistStatements stmts s)"

text \<open>The second loop: walking the members.\<close>

fun convertVariableTypes ::
  "ts_variable_declaration list \<Rightarrow> scope_state \<Rightarrow> error + scope_state" where
  "convertVariableTypes [] s = Inr s"
| "convertVariableTypes (VariableDeclaration _ type # decls) s =
     andThen (convertTypeNode_opt type s) (\<lambda>s. convertVariableTypes decls s)"

fun pushExportReferences :: "ts_export_specifier list \<Rightarrow> scope_state \<Rightarrow> scope_state" where
  "pushExportReferences [] s = s"
| "pushExportReferences (ExportSpecifier propertyName name # elements) s =
     pushExportReferences elements
       (pushIdentifierReference (case propertyName of Some p \<Rightarrow> p | None \<Rightarrow> name) s)"

fun convertNamespace :: "ts_statement list option \<Rightarrow> scope_state \<Rightarrow> error + scope_state"
  and walkStatements :: "ts_statement list \<Rightarrow> scope_state \<Rightarrow> error + scope_state"
  and walkStatement :: "ts_statement_kind \<Rightarrow> scope_state \<Rightarrow> error + scope_state"
where
  "convertNamespace None s =
     Inl (UnsupportedSyntaxError ''namespace must have a ModuleBlock body.'')"
| "convertNamespace (Some statements) s =
     andThen (hoistStatements statements (pushScope s)) (\<lambda>s.
     andThen (walkStatements statements s) (\<lambda>s.
     Inr (popScope 1 s)))"
| "walkStatements [] s = Inr s"
| "walkStatements (Statement _ _ _ stmt # stmts) s =
     andThen (walkStatement stmt s) (\<lambda>s. walkStatements stmts s)"
| "walkStatement (VariableStatement declarations) s = convertVariableTypes declarations s"
| "walkStatement (FunctionDeclaration _ sig) s = convertParametersAndType None sig s"
| "walkStatement (InterfaceOrClassDeclaration _ typeParameters heritageClauses members) s =
     convertClassOrInterfaceBody typeParameters heritageClauses members s"
| "walkStatement (TypeAliasDeclaration _ typeParameters type) s =
     convertTypeAliasBody typeParameters type s"
| "walkStatement (ModuleDeclaration _ _ body) s = convertNamespace body s"
| "walkStatement (EnumDeclaration _) s = Inr s"
| "walkStatement (ExportDeclaration None _) s = Inr s"
| "walkStatement (ExportDeclaration (Some (NamespaceExport _)) _) s = Inl unsupported"
| "walkStatement (ExportDeclaration (Some (NamedExports elements)) _) s =
     Inr (pushExportReferences elements s)"
| "walkStatement _ s =
     Inl (UnsupportedSyntaxError ''namespace child (walking) not supported yet'')"

lemma depth_convertTypeParameters:
  "convertTypeParameters tps s = Inr (n, s') \<Longrightarrow> depth s + n = depth s'"
  using depth_convert(8) [of tps s "(n, s')"] by simp

lemma depth_convertHeritageTypes:
  "convertHeritageTypes types s = Inr s' \<Longrightarrow> depth s = depth s'"
proof (induction types s rule: convertHeritageTypes.induct)
  case (1 s)
  then show ?case by simp
next
  case (2 expression typeArguments types s)
  from "2.prems" obtain ref s1 where
    "convertTypeArguments typeArguments (pushReference ref s) = Inr s1"
    "convertHeritageTypes types s1 = Inr s'"
    and ref: "convertExpression expression = Inr ref"
    by (auto split: sum.splits elim!: andThenE)
  moreover from this have "depth s1 = depth s'" using "2.IH" by blast
  ultimately show ?case using depth_convert(5) [of typeArguments "pushReference ref s" s1]
    by simp
qed

lemma depth_convertHeritageClauses:
  "convertHeritageClauses clauses s = Inr s' \<Longrightarrow> depth s = depth s'"
proof -
  have "convertHeritageClauses_each cs s = Inr s' \<Longrightarrow> depth s = depth s'" for cs
  proof (induction cs arbitrary: s)
    case Nil
    then show ?case by simp
  next
    case (Cons types cs)
    then obtain s1 where "convertHeritageTypes types s = Inr s1"
      "convertHeritageClauses_each cs s1 = Inr s'"
      by (auto elim!: andThenE)
    then show ?case using Cons.IH depth_convertHeritageTypes by metis
  qed
  then show "convertHeritageClauses clauses s = Inr s' \<Longrightarrow> depth s = depth s'"
    by (auto simp: convertHeritageClauses_def split: option.splits)
qed

lemma depth_convertClassOrInterfaceBody:
  "convertClassOrInterfaceBody tps heritage members s = Inr s' \<Longrightarrow> depth s = depth s'"
proof -
  assume "convertClassOrInterfaceBody tps heritage members s = Inr s'"
  then obtain n s1 s2 s3 where "convertTypeParameters tps s = Inr (n, s1)"
    "convertHeritageClauses heritage s1 = Inr s2" "convertMembers members s2 = Inr s3"
    "s' = popScope n s3"
    by (auto simp: convertClassOrInterfaceBody_def split: sum.splits elim!: andThenE)
  then show ?thesis
    using depth_convertTypeParameters [of tps s n s1] depth_convertHeritageClauses [of heritage s1 s2]
      depth_convert(6) [of members s2 s3]
    by simp
qed

lemma depth_convertTypeAliasBody:
  "convertTypeAliasBody tps type s = Inr s' \<Longrightarrow> depth s = depth s'"
proof -
  assume "convertTypeAliasBody tps type s = Inr s'"
  then obtain n s1 s2 where "convertTypeParameters tps s = Inr (n, s1)"
    "convertTypeNode type s1 = Inr s2" "s' = popScope n s2"
    by (auto simp: convertTypeAliasBody_def split: sum.splits elim!: andThenE)
  then show ?thesis
    using depth_convertTypeParameters [of tps s n s1] depth_convert(1) [of type s1 s2]
    by simp
qed

lemma depth_hoistVariableDeclarations:
  "hoistVariableDeclarations decls s = Inr s' \<Longrightarrow> depth s = depth s'"
  by (induction decls s rule: hoistVariableDeclarations.induct) auto

lemma depth_hoistStatement:
  "hoistStatement k s = Inr s' \<Longrightarrow> depth s = depth s'"
  by (induction k s rule: hoistStatement.induct) (auto dest: depth_hoistVariableDeclarations)

lemma depth_hoistStatements:
  "hoistStatements stmts s = Inr s' \<Longrightarrow> depth s = depth s'"
proof (induction stmts arbitrary: s)
  case Nil
  then show ?case by simp
next
  case (Cons stmt stmts)
  then obtain s1 where "hoistStatement (kind stmt) s = Inr s1" "hoistStatements stmts s1 = Inr s'"
    by (auto elim!: andThenE)
  then show ?case using Cons.IH depth_hoistStatement by metis
qed

lemma depth_convertVariableTypes:
  "convertVariableTypes decls s = Inr s' \<Longrightarrow> depth s = depth s'"
proof (induction decls arbitrary: s)
  case Nil
  then show ?case by simp
next
  case (Cons decl decls)
  obtain name type where decl: "decl = VariableDeclaration name type" by (cases decl)
  with Cons.prems obtain s1 where "convertTypeNode_opt type s = Inr s1"
    "convertVariableTypes decls s1 = Inr s'"
    by (auto elim!: andThenE)
  then show ?case using Cons.IH depth_convert(2) by metis
qed

lemma depth_pushExportReferences: "depth (pushExportReferences elements s) = depth s"
  by (induction elements s rule: pushExportReferences.induct)
     (simp_all add: pushIdentifierReference_def)


lemma depth_namespace:
  "(convertNamespace body s = Inr s' \<longrightarrow> depth s = depth s')"
  "(walkStatements stmts s = Inr s' \<longrightarrow> depth s = depth s')"
  "(walkStatement k s = Inr s' \<longrightarrow> depth s = depth s')"
  apply (induction body s and stmts s and k s arbitrary: s' and s' and s'
         rule: convertNamespace_walkStatements_walkStatement.induct)
  apply (auto elim!: andThenE
      dest: depth_convertVariableTypes depth_convertClassOrInterfaceBody depth_convertTypeAliasBody
      simp: depth_pushExportReferences depth_convert)
  subgoal premises prems
    using depth_hoistStatements [OF prems(2)] prems(1) [rule_format, OF prems(3)]
    by simp
  done


section \<open>The Graph Builder: \<open>Transformer\<close>\<close>

text \<open>
  The nodes of the emitted program are objects that are shared and mutated: the
  declaration of a \<open>DeclarationScope\<close> is the same object as an entry of \<open>ast.body\<close>,
  and a \<open>DeclarationScope\<close> is the same object in the map \<open>declarations\<close> and in the
  hands of the caller. Both kinds of object live in a store (a list, the address is the
  index; allocation appends). The \<open>Map\<close> from names to scope objects is an association
  list in insertion order: \<open>get\<close> is \<open>map_of\<close> and \<open>set\<close> is \<open>AList.update\<close>.

  A node has a type with the fields of that type, the list \<open>params\<close> (used by function
  declarations and function expressions, empty otherwise) and its range.
\<close>

datatype es_import_specifier =
    ES_ImportSpecifier es_expr es_expr
  | ES_ImportDefaultSpecifier es_expr
  | ES_ImportNamespaceSpecifier es_expr

datatype es_export_specifier = ES_ExportSpecifier es_expr es_expr

datatype es_node_type =
    ES_FunctionDeclaration es_expr
  | ES_FunctionExpression
  | ES_CallStatement string nat
  | ES_LiteralStatement string
  | ES_ExportDefaultDeclaration es_expr
  | ES_ExportAllDeclaration "es_expr option" "es_expr option"
  | ES_ExportNamedDeclaration "es_export_specifier list" "es_expr option"
  | ES_ImportDeclaration "es_import_specifier list" es_expr

record es_node =
  node_type :: es_node_type
  node_params :: "es_param list"
  node_start :: nat
  node_end :: nat

record DeclarationScope =
  scope_declaration :: nat
  scope_iife :: "nat option"
  scope_stack :: "string list list"

record Transformer = globals +
  heap :: "es_node list"
  scopeObjs :: "DeclarationScope list"
  ast_body :: "nat list"
  declarations :: "(string \<times> nat) list"

definition alloc :: "es_node \<Rightarrow> Transformer \<Rightarrow> nat \<times> Transformer" where
  "alloc n t = (length (heap t), t\<lparr>heap := heap t @ [n]\<rparr>)"

definition pushStatement :: "nat \<Rightarrow> Transformer \<Rightarrow> Transformer" where
  "pushStatement a t = t\<lparr>ast_body := ast_body t @ [a]\<rparr>"

text \<open>
  \<open>createDeclaration(id, range)\<close> builds \<open>function id() {}\<close> over the range; the
  constructor of \<open>DeclarationScope\<close> stores it with an empty scope stack. Without an
  \<open>id\<close> the constructor calls \<open>createIIFE(range)\<close>: a function expression and the
  statement that calls a fresh identifier with it; the function expression is the
  declaration of the scope.
\<close>

definition createDeclaration :: "ts_identifier \<Rightarrow> nat \<times> nat \<Rightarrow> es_node" where
  "createDeclaration ident rng =
     \<lparr>node_type = ES_FunctionDeclaration (Identifier (idText ident) (Some (idStart ident, idEnd ident))),
      node_params = [], node_start = fst rng, node_end = snd rng\<rparr>"

definition newNamedScope :: "ts_identifier \<Rightarrow> nat \<times> nat \<Rightarrow> Transformer \<Rightarrow> nat \<times> Transformer" where
  "newNamedScope ident rng t =
     (let (d, t) = alloc (createDeclaration ident rng) t
      in (length (scopeObjs t),
          t\<lparr>scopeObjs := scopeObjs t @ [\<lparr>scope_declaration = d, scope_iife = None, scope_stack = []\<rparr>]\<rparr>))"

definition newAnonymousScope :: "nat \<times> nat \<Rightarrow> Transformer \<Rightarrow> (nat \<times> nat) \<times> Transformer" where
  "newAnonymousScope rng t =
     (let (fn, t) = alloc \<lparr>node_type = ES_FunctionExpression, node_params = [],
                            node_start = fst rng, node_end = snd rng\<rparr> t;
          (stmt, t) = alloc \<lparr>node_type = ES_CallStatement (String_of_nat (IDs t)) fn, node_params = [],
                              node_start = fst rng, node_end = snd rng\<rparr> t;
          t = t\<lparr>IDs := IDs t + 1\<rparr>
      in ((length (scopeObjs t), stmt),
          t\<lparr>scopeObjs := scopeObjs t @ [\<lparr>scope_declaration = fn, scope_iife = Some stmt, scope_stack = []\<rparr>]\<rparr>))"

text \<open>
  Calling methods of the scope object at address \<open>scope\<close>: the methods see its stack, the
  \<open>params\<close> of its declaration and the counter, and what they leave is written back.
\<close>

definition enterScope :: "nat \<Rightarrow> Transformer \<Rightarrow> scope_state" where
  "enterScope scope t =
     \<lparr>IDs = IDs t, scopes = scope_stack (scopeObjs t ! scope),
      params = node_params (heap t ! scope_declaration (scopeObjs t ! scope))\<rparr>"

definition leaveScope :: "nat \<Rightarrow> scope_state \<Rightarrow> Transformer \<Rightarrow> Transformer" where
  "leaveScope scope s t =
     (let obj = scopeObjs t ! scope; d = scope_declaration obj
      in t\<lparr>IDs := IDs s,
           heap := (heap t)[d := (heap t ! d)\<lparr>node_params := params s\<rparr>],
           scopeObjs := (scopeObjs t)[scope := obj\<lparr>scope_stack := scopes s\<rparr>]\<rparr>)"

definition applyScope :: "nat \<Rightarrow> (scope_state \<Rightarrow> scope_state) \<Rightarrow> Transformer \<Rightarrow> Transformer" where
  "applyScope scope f t = leaveScope scope (f (enterScope scope t)) t"

definition runScope ::
  "nat \<Rightarrow> (scope_state \<Rightarrow> error + scope_state) \<Rightarrow> Transformer \<Rightarrow> error + Transformer" where
  "runScope scope f t =
     (case f (enterScope scope t) of
        Inl err \<Rightarrow> Inl err
      | Inr s \<Rightarrow> Inr (leaveScope scope s t))"

text \<open>
  \<open>Array.prototype.findIndex\<close> gives the first index whose element satisfies the test,
  or \<open>-1\<close>.
\<close>

fun findIndex :: "('a \<Rightarrow> bool) \<Rightarrow> 'a list \<Rightarrow> int" where
  "findIndex p [] = -1"
| "findIndex p (x # xs) =
     (if p x then 0 else (let i = findIndex p xs in if i < 0 then -1 else i + 1))"

definition bump :: "nat \<Rightarrow> nat list \<Rightarrow> es_node list \<Rightarrow> es_node list" where
  "bump pos addrs h = fold (\<lambda>a h. h[a := (h ! a)\<lparr>node_start := pos, node_end := pos\<rparr>]) addrs h"

text \<open>
  \<^verbatim>\<open>
  createDeclaration(node, id) {
      const range = { start: node.getFullStart(), end: node.getEnd() };
      if (!id) {
          const scope = new DeclarationScope({ range });
          this.pushStatement(scope.iife);
          return scope;
      }
      const name = id.getText();
      const scope = new DeclarationScope({ id, range });
      const existingScope = this.declarations.get(name);
      if (existingScope) {
          existingScope.pushIdentifierReference(id);
          existingScope.declaration.end = range.end;
          let selfIdx = this.ast.body.findIndex((node) => node == existingScope.declaration);
          for (let i = selfIdx + 1; i < this.ast.body.length; i++) {
              const decl = this.ast.body[i];
              decl.start = decl.end = range.end;
          }
      }
      else {
          this.pushStatement(scope.declaration);
          this.declarations.set(name, scope);
      }
      return existingScope || scope;
  }
  \<close>
\<close>

definition Transformer_createDeclaration ::
  "ts_statement \<Rightarrow> ts_identifier option \<Rightarrow> Transformer \<Rightarrow> nat \<times> Transformer" where
  "Transformer_createDeclaration node ident_opt t =
     (let rng = (getFullStart node, getEnd node)
      in case ident_opt of
           None \<Rightarrow>
             (let ((scope, stmt), t) = newAnonymousScope rng t
              in (scope, pushStatement stmt t))
         | Some ident \<Rightarrow>
             (let name = getText ident;
                  (scope, t) = newNamedScope ident rng t
              in case map_of (declarations t) name of
                   Some existingScope \<Rightarrow>
                     (let t = applyScope existingScope (pushIdentifierReference ident) t;
                          d = scope_declaration (scopeObjs t ! existingScope);
                          t = t\<lparr>heap := (heap t)[d := (heap t ! d)\<lparr>node_end := snd rng\<rparr>]\<rparr>;
                          selfIdx = findIndex (\<lambda>a. a = d) (ast_body t);
                          t = t\<lparr>heap := bump (snd rng) (drop (nat (selfIdx + 1)) (ast_body t)) (heap t)\<rparr>
                      in (existingScope, t))
                 | None \<Rightarrow>
                     (scope,
                      (pushStatement (scope_declaration (scopeObjs t ! scope)) t)
                        \<lparr>declarations := AList.update name scope (declarations t)\<rparr>)))"


definition pushNode :: "es_node_type \<Rightarrow> nat \<Rightarrow> nat \<Rightarrow> Transformer \<Rightarrow> Transformer" where
  "pushNode ty s e t =
     (let (a, t) = alloc \<lparr>node_type = ty, node_params = [], node_start = s, node_end = e\<rparr> t
      in pushStatement a t)"

definition removeStatement :: "ts_statement \<Rightarrow> Transformer \<Rightarrow> Transformer" where
  "removeStatement node t =
     pushNode (ES_LiteralStatement ''pls remove me'') (getStart node) (getEnd node) t"

definition convertExportSpecifier :: "ts_export_specifier \<Rightarrow> es_export_specifier" where
  "convertExportSpecifier spec =
     (case spec of ExportSpecifier propertyName name \<Rightarrow>
        ES_ExportSpecifier (createIdentifier name)
          (case propertyName of Some p \<Rightarrow> createIdentifier p | None \<Rightarrow> createIdentifier name))"

definition convertSource :: "ts_expression option \<Rightarrow> error + es_expr option" where
  "convertSource moduleSpecifier =
     (case moduleSpecifier of
        None \<Rightarrow> Inr None
      | Some expr \<Rightarrow> (case convertExpression expr of Inl err \<Rightarrow> Inl err | Inr e \<Rightarrow> Inr (Some e)))"

fun convertExportDeclaration :: "ts_statement \<Rightarrow> Transformer \<Rightarrow> error + Transformer" where
  "convertExportDeclaration (Statement fs s e (ExportAssignment expression)) t =
     (case convertExpression expression of
        Inl err \<Rightarrow> Inl err
      | Inr d \<Rightarrow> Inr (pushNode (ES_ExportDefaultDeclaration d) s e t))"
| "convertExportDeclaration (Statement fs s e (ExportDeclaration exportClause moduleSpecifier)) t =
     (case convertSource moduleSpecifier of
        Inl err \<Rightarrow> Inl err
      | Inr source \<Rightarrow>
          (case exportClause of
             None \<Rightarrow> Inr (pushNode (ES_ExportAllDeclaration source None) s e t)
           | Some (NamespaceExport name) \<Rightarrow>
               Inr (pushNode (ES_ExportAllDeclaration source (Some (createIdentifier name))) s e t)
           | Some (NamedExports elements) \<Rightarrow>
               Inr (pushNode (ES_ExportNamedDeclaration (map convertExportSpecifier elements) source)
                      s e t)))"
| "convertExportDeclaration _ t = Inl TypeError"

definition convertNamedImportBindings :: "ts_named_bindings \<Rightarrow> es_import_specifier list" where
  "convertNamedImportBindings node =
     (case node of
        NamedImports elements \<Rightarrow>
          map (\<lambda>el. case el of ImportSpecifier propertyName name \<Rightarrow>
                 ES_ImportSpecifier (createIdentifier name)
                   (case propertyName of Some p \<Rightarrow> createIdentifier p | None \<Rightarrow> createIdentifier name))
              elements
      | NamespaceImport name \<Rightarrow> [ES_ImportNamespaceSpecifier (createIdentifier name)])"

fun convertImportDeclaration :: "ts_statement \<Rightarrow> Transformer \<Rightarrow> error + Transformer" where
  "convertImportDeclaration (Statement fs s e (ImportEqualsDeclaration name EntityNameReference)) t =
     Inl (UnsupportedSyntaxError ''ImportEquals should have a literal source.'')"
| "convertImportDeclaration
     (Statement fs s e (ImportEqualsDeclaration name (ExternalModuleReference expression))) t =
     (case convertExpression expression of
        Inl err \<Rightarrow> Inl err
      | Inr source \<Rightarrow>
          Inr (pushNode (ES_ImportDeclaration [ES_ImportDefaultSpecifier (createIdentifier name)] source)
                 s e t))"
| "convertImportDeclaration (Statement fs s e (ImportDeclaration moduleSpecifier importClause)) t =
     (case convertExpression moduleSpecifier of
        Inl err \<Rightarrow> Inl err
      | Inr source \<Rightarrow>
          (let specifiers =
                 (case importClause of
                    Some (ImportClause _ (Some namedBindings)) \<Rightarrow> convertNamedImportBindings namedBindings
                  | _ \<Rightarrow> []);
               specifiers =
                 (case importClause of
                    Some (ImportClause (Some name) _) \<Rightarrow>
                      specifiers @ [ES_ImportDefaultSpecifier (createIdentifier name)]
                  | _ \<Rightarrow> specifiers)
           in Inr (pushNode (ES_ImportDeclaration specifiers source) s e t)))"
| "convertImportDeclaration _ t = Inl TypeError"

text \<open>
  \<open>convertStatement\<close> together with the methods it dispatches to
  (\<open>convertEnumDeclaration\<close>, \<open>convertFunctionDeclaration\<close>,
  \<open>convertClassOrInterfaceDeclaration\<close>, \<open>convertTypeAliasDeclaration\<close>,
  \<open>convertVariableStatement\<close>, \<open>convertNamespaceDeclaration\<close>).
\<close>

definition convertEnumDeclaration :: "ts_statement \<Rightarrow> ts_identifier \<Rightarrow> Transformer \<Rightarrow> Transformer" where
  "convertEnumDeclaration node name t =
     (let (scope, t) = Transformer_createDeclaration node (Some name) t
      in applyScope scope (pushIdentifierReference name) t)"

definition convertFunctionDeclaration ::
  "ts_statement \<Rightarrow> ts_identifier option \<Rightarrow> ts_signature \<Rightarrow> Transformer \<Rightarrow> error + Transformer" where
  "convertFunctionDeclaration node name_opt sig t =
     (case name_opt of
        None \<Rightarrow> Inl (UnsupportedSyntaxError ''FunctionDeclaration should have a name'')
      | Some name \<Rightarrow>
          (let (scope, t) = Transformer_createDeclaration node (Some name) t;
               t = applyScope scope (pushIdentifierReference name) t
           in runScope scope (convertParametersAndType None sig) t))"

definition convertClassOrInterfaceDeclaration ::
  "ts_statement \<Rightarrow> ts_identifier option \<Rightarrow> ts_type_parameter list option
     \<Rightarrow> ts_heritage_type list list option \<Rightarrow> ts_member list \<Rightarrow> Transformer \<Rightarrow> error + Transformer" where
  "convertClassOrInterfaceDeclaration node name_opt typeParameters heritageClauses members t =
     (case name_opt of
        None \<Rightarrow>
          Inl (UnsupportedSyntaxError ''ClassDeclaration / InterfaceDeclaration should have a name'')
      | Some name \<Rightarrow>
          (let (scope, t) = Transformer_createDeclaration node (Some name) t
           in runScope scope (convertClassOrInterfaceBody typeParameters heritageClauses members) t))"

definition convertTypeAliasDeclaration ::
  "ts_statement \<Rightarrow> ts_identifier \<Rightarrow> ts_type_parameter list option \<Rightarrow> ts_type
     \<Rightarrow> Transformer \<Rightarrow> error + Transformer" where
  "convertTypeAliasDeclaration node name typeParameters type t =
     (let (scope, t) = Transformer_createDeclaration node (Some name) t
      in runScope scope (convertTypeAliasBody typeParameters type) t)"

definition convertVariableStatement ::
  "ts_statement \<Rightarrow> ts_variable_declaration list \<Rightarrow> Transformer \<Rightarrow> error + Transformer" where
  "convertVariableStatement node decls t =
     (case decls of
        [VariableDeclaration (BindingIdentifier name) type] \<Rightarrow>
          (let (scope, t) = Transformer_createDeclaration node (Some name) t
           in runScope scope (convertTypeNode_opt type) t)
      | [VariableDeclaration BindingPattern type] \<Rightarrow>
          Inl (UnsupportedSyntaxError ''VariableDeclaration must have a name'')
      | _ \<Rightarrow>
          Inl (UnsupportedSyntaxError
                 ''VariableStatement with more than one declaration not yet supported''))"

definition convertNamespaceDeclaration ::
  "ts_statement \<Rightarrow> bool \<Rightarrow> ts_module_name \<Rightarrow> ts_statement list option
     \<Rightarrow> Transformer \<Rightarrow> error + Transformer" where
  "convertNamespaceDeclaration node isGlobalAugmentation name body t =
     (case (isGlobalAugmentation, name) of
        (False, ModuleIdentifier ident) \<Rightarrow>
          (let (scope, t) = Transformer_createDeclaration node (Some ident) t;
               t = applyScope scope (pushIdentifierReference ident) t
           in runScope scope (convertNamespace body) t)
      | _ \<Rightarrow>
          (let (scope, t) = Transformer_createDeclaration node None t
           in runScope scope (convertNamespace body) t))"

definition convertStatement :: "ts_statement \<Rightarrow> Transformer \<Rightarrow> error + Transformer" where
  "convertStatement node t =
     (case kind node of
        EnumDeclaration name \<Rightarrow> Inr (convertEnumDeclaration node name t)
      | FunctionDeclaration name sig \<Rightarrow> convertFunctionDeclaration node name sig t
      | InterfaceOrClassDeclaration name typeParameters heritageClauses members \<Rightarrow>
          convertClassOrInterfaceDeclaration node name typeParameters heritageClauses members t
      | TypeAliasDeclaration name typeParameters type \<Rightarrow>
          convertTypeAliasDeclaration node name typeParameters type t
      | VariableStatement decls \<Rightarrow> convertVariableStatement node decls t
      | ExportDeclaration _ _ \<Rightarrow> convertExportDeclaration node t
      | ExportAssignment _ \<Rightarrow> convertExportDeclaration node t
      | ModuleDeclaration isGlobalAugmentation name body \<Rightarrow>
          convertNamespaceDeclaration node isGlobalAugmentation name body t
      | NamespaceExportDeclaration \<Rightarrow> Inr (removeStatement node t)
      | ImportDeclaration _ _ \<Rightarrow> convertImportDeclaration node t
      | ImportEqualsDeclaration _ _ \<Rightarrow> convertImportDeclaration node t
      | OtherStatement \<Rightarrow> Inl unsupported)"

text \<open>
  The constructor of \<open>Transformer\<close> starts from an empty program and converts the
  statements of the source file in order; \<open>counter\<close> is the value of \<open>IDs\<close> when it
  starts.
\<close>

definition newTransformer :: "nat \<Rightarrow> Transformer" where
  "newTransformer counter =
     \<lparr>IDs = counter, heap = [], scopeObjs = [], ast_body = [], declarations = []\<rparr>"

fun convertStatements :: "ts_statement list \<Rightarrow> Transformer \<Rightarrow> error + Transformer" where
  "convertStatements [] t = Inr t"
| "convertStatements (stmt # stmts) t =
     (case convertStatement stmt t of
        Inl err \<Rightarrow> Inl err
      | Inr t \<Rightarrow> convertStatements stmts t)"

definition transform :: "ts_statement list \<Rightarrow> nat \<Rightarrow> error + Transformer" where
  "transform statements counter = convertStatements statements (newTransformer counter)"

definition body_nodes :: "Transformer \<Rightarrow> es_node list" where
  "body_nodes t = map (\<lambda>a. heap t ! a) (ast_body t)"

section \<open>Well-formed Graph Builder states\<close>

text \<open>
  Between two top-level statements the state of a \<open>Transformer\<close> is well formed: the
  entries of \<open>ast.body\<close> are distinct allocated nodes, every scope object has an
  allocated declaration and an empty scope stack, and every name of \<open>declarations\<close>
  maps to a scope object whose declaration is an entry of \<open>ast.body\<close>.
\<close>

definition wf :: "Transformer \<Rightarrow> bool" where
  "wf t \<longleftrightarrow>
     distinct (ast_body t)
     \<and> (\<forall>a \<in> set (ast_body t). a < length (heap t))
     \<and> (\<forall>sc < length (scopeObjs t).
           scope_declaration (scopeObjs t ! sc) < length (heap t)
           \<and> scope_stack (scopeObjs t ! sc) = [])
     \<and> (\<forall>name sc. map_of (declarations t) name = Some sc \<longrightarrow>
           sc < length (scopeObjs t)
           \<and> scope_declaration (scopeObjs t ! sc) \<in> set (ast_body t))"

lemma wf_newTransformer: "wf (newTransformer counter)"
  by (simp add: wf_def newTransformer_def)

lemma length_bump [simp]: "length (bump pos addrs h) = length h"
  unfolding bump_def by (induction addrs arbitrary: h) simp_all




lemma wf_pushNode: "wf t \<Longrightarrow> wf (pushNode ty s e t)"
  by (auto simp: wf_def pushNode_def alloc_def pushStatement_def Let_def less_Suc_eq
      dest: less_SucI)

lemma wf_leaveScope:
  "wf t \<Longrightarrow> scopes s = [] \<Longrightarrow> wf (leaveScope sc s t)"
proof (cases "sc < length (scopeObjs t)")
  case True
  assume "wf t" "scopes s = []"
  with True show ?thesis
    by (auto simp: wf_def leaveScope_def Let_def nth_list_update)
next
  case False
  then have same: "(scopeObjs t)[sc := x] = scopeObjs t" for x
    by (simp add: list_update_beyond)
  assume "wf t" "scopes s = []"
  then show ?thesis
    by (auto simp: wf_def leaveScope_def Let_def same)
qed

lemma enterScope_scopes:
  "wf t \<Longrightarrow> sc < length (scopeObjs t) \<Longrightarrow> scopes (enterScope sc t) = []"
  by (simp add: wf_def enterScope_def)

lemma wf_applyScope:
  "wf t \<Longrightarrow> sc < length (scopeObjs t) \<Longrightarrow> (\<And>s. depth (f s) = depth s) \<Longrightarrow> wf (applyScope sc f t)"
proof -
  assume wf: "wf t" and sc: "sc < length (scopeObjs t)" and f: "\<And>s. depth (f s) = depth s"
  have "depth (f (enterScope sc t)) = 0"
    using f enterScope_scopes [OF wf sc] by (simp add: depth_def)
  then have "scopes (f (enterScope sc t)) = []" by (simp add: depth_def)
  with wf show ?thesis unfolding applyScope_def by (rule wf_leaveScope)
qed

lemma wf_runScope:
  assumes "wf t" "sc < length (scopeObjs t)"
    and "\<And>s s'. f s = Inr s' \<Longrightarrow> depth s = depth s'"
    and "runScope sc f t = Inr t'"
  shows "wf t'"
proof -
  from assms(4) obtain s' where run: "f (enterScope sc t) = Inr s'" and t': "t' = leaveScope sc s' t"
    by (auto simp: runScope_def split: sum.splits)
  from assms(3) [OF run] enterScope_scopes [OF assms(1,2)] have "scopes s' = []"
    by (simp add: depth_def)
  with assms(1) t' show ?thesis by (simp add: wf_leaveScope)
qed

lemma length_scopeObjs_leaveScope [simp]:
  "length (scopeObjs (leaveScope sc s t)) = length (scopeObjs t)"
  by (simp add: leaveScope_def Let_def)


lemma wf_heap_update: "wf t \<Longrightarrow> length h = length (heap t) \<Longrightarrow> wf (t\<lparr>heap := h\<rparr>)"
  by (simp add: wf_def)

lemma newNamedScope_eq:
  "newNamedScope ident rng t =
     (length (scopeObjs t),
      t\<lparr>heap := heap t @ [createDeclaration ident rng],
        scopeObjs := scopeObjs t @
          [\<lparr>scope_declaration = length (heap t), scope_iife = None, scope_stack = []\<rparr>]\<rparr>)"
  by (simp add: newNamedScope_def alloc_def)

lemma newAnonymousScope_eq:
  "newAnonymousScope rng t =
     ((length (scopeObjs t), Suc (length (heap t))),
      t\<lparr>heap := heap t @
          [\<lparr>node_type = ES_FunctionExpression, node_params = [],
            node_start = fst rng, node_end = snd rng\<rparr>,
           \<lparr>node_type = ES_CallStatement (String_of_nat (IDs t)) (length (heap t)), node_params = [],
            node_start = fst rng, node_end = snd rng\<rparr>],
        IDs := IDs t + 1,
        scopeObjs := scopeObjs t @
          [\<lparr>scope_declaration = length (heap t), scope_iife = Some (Suc (length (heap t))),
            scope_stack = []\<rparr>]\<rparr>)"
  by (simp add: newAnonymousScope_def alloc_def)

lemma wf_newNamedScope:
  "wf t \<Longrightarrow> wf (snd (newNamedScope ident rng t))"
  by (auto simp: newNamedScope_eq wf_def nth_append less_Suc_eq dest: less_SucI)

lemma depth_pushIdentifierReference [simp]: "depth (pushIdentifierReference ident s) = depth s"
  by (simp add: pushIdentifierReference_def)

text \<open>The three ways through \<open>Transformer.createDeclaration\<close>.\<close>

lemma createDeclaration_anonymous:
  "Transformer_createDeclaration node None t =
     (length (scopeObjs t),
      pushStatement (Suc (length (heap t)))
        (snd (newAnonymousScope (getFullStart node, getEnd node) t)))"
  by (simp add: Transformer_createDeclaration_def newAnonymousScope_eq)

lemma createDeclaration_new:
  "map_of (declarations t) (getText ident) = None \<Longrightarrow>
   Transformer_createDeclaration node (Some ident) t =
     (length (scopeObjs t),
      (pushStatement (length (heap t)) (snd (newNamedScope ident (getFullStart node, getEnd node) t)))
        \<lparr>declarations := AList.update (getText ident) (length (scopeObjs t)) (declarations t)\<rparr>)"
  by (simp add: Transformer_createDeclaration_def newNamedScope_eq pushStatement_def)

definition bumpAfter :: "nat \<Rightarrow> nat \<Rightarrow> Transformer \<Rightarrow> Transformer" where
  "bumpAfter d pos t =
     t\<lparr>heap := bump pos (drop (nat (findIndex (\<lambda>a. a = d) (ast_body t) + 1)) (ast_body t))
                ((heap t)[d := (heap t ! d)\<lparr>node_end := pos\<rparr>])\<rparr>"

lemma createDeclaration_existing:
  "map_of (declarations t) (getText ident) = Some sc \<Longrightarrow> sc < length (scopeObjs t) \<Longrightarrow>
   Transformer_createDeclaration node (Some ident) t =
     (sc, bumpAfter (scope_declaration (scopeObjs t ! sc)) (getEnd node)
            (applyScope sc (pushIdentifierReference ident)
               (snd (newNamedScope ident (getFullStart node, getEnd node) t))))"
  by (simp add: Transformer_createDeclaration_def newNamedScope_eq Let_def bumpAfter_def
      applyScope_def leaveScope_def nth_append)

lemma wf_bumpAfter: "wf t \<Longrightarrow> wf (bumpAfter d pos t)"
  by (simp add: bumpAfter_def wf_heap_update)

lemma wf_createDeclaration:
  assumes "wf t" and "Transformer_createDeclaration node ident_opt t = (sc, t')"
  shows "wf t' \<and> sc < length (scopeObjs t')"
proof (cases ident_opt)
  case None
  with assms(2) have t': "t' = pushStatement (Suc (length (heap t)))
        (snd (newAnonymousScope (getFullStart node, getEnd node) t))"
    and sc: "sc = length (scopeObjs t)"
    by (simp_all add: createDeclaration_anonymous)
  from assms(1) show ?thesis unfolding t' sc
    by (auto simp: newAnonymousScope_eq pushStatement_def wf_def nth_append less_Suc_eq
        dest: less_SucI)
next
  case (Some ident)
  show ?thesis
  proof (cases "map_of (declarations t) (getText ident)")
    case None
    from assms(2) show ?thesis
      unfolding Some createDeclaration_new [OF None] using assms(1)
      by (auto simp: newNamedScope_eq pushStatement_def wf_def nth_append less_Suc_eq update_conv'
          dest: less_SucI split: if_splits)
  next
    case (Some existing)
    with assms(1) have ex: "existing < length (scopeObjs t)" by (simp add: wf_def)
    let ?t1 = "snd (newNamedScope ident (getFullStart node, getEnd node) t)"
    have wf1: "wf ?t1" using assms(1) by (rule wf_newNamedScope)
    have ex1: "existing < length (scopeObjs ?t1)" using ex by (simp add: newNamedScope_eq)
    have "wf (applyScope existing (pushIdentifierReference ident) ?t1)"
      using wf1 ex1 by (rule wf_applyScope) simp
    then have "wf (bumpAfter (scope_declaration (scopeObjs t ! existing)) (getEnd node)
                 (applyScope existing (pushIdentifierReference ident) ?t1))"
      by (rule wf_bumpAfter)
    moreover have "length (scopeObjs (bumpAfter (scope_declaration (scopeObjs t ! existing)) (getEnd node)
                 (applyScope existing (pushIdentifierReference ident) ?t1))) = Suc (length (scopeObjs t))"
      by (simp add: bumpAfter_def applyScope_def newNamedScope_eq)
    ultimately show ?thesis
      using assms(2) ex unfolding \<open>ident_opt = Some ident\<close> createDeclaration_existing [OF Some ex]
      by auto
  qed
qed


lemma length_scopeObjs_applyScope [simp]:
  "length (scopeObjs (applyScope sc f t)) = length (scopeObjs t)"
  by (simp add: applyScope_def)

lemma wf_convertEnumDeclaration: "wf t \<Longrightarrow> wf (convertEnumDeclaration node name t)"
proof -
  assume wf: "wf t"
  obtain sc t1 where cd: "Transformer_createDeclaration node (Some name) t = (sc, t1)"
    by (cases "Transformer_createDeclaration node (Some name) t")
  from wf_createDeclaration [OF wf cd] have "wf (applyScope sc (pushIdentifierReference name) t1)"
    by (intro wf_applyScope) simp_all
  with cd show ?thesis by (simp add: convertEnumDeclaration_def)
qed

lemma wf_convertFunctionDeclaration:
  assumes "wf t" "convertFunctionDeclaration node name_opt sig t = Inr t'"
  shows "wf t'"
proof (cases name_opt)
  case None
  with assms(2) show ?thesis by (simp add: convertFunctionDeclaration_def)
next
  case (Some name)
  obtain sc t1 where cd: "Transformer_createDeclaration node (Some name) t = (sc, t1)"
    by (cases "Transformer_createDeclaration node (Some name) t")
  let ?t2 = "applyScope sc (pushIdentifierReference name) t1"
  from wf_createDeclaration [OF assms(1) cd] have "wf ?t2" "sc < length (scopeObjs ?t2)"
    by (simp_all add: wf_applyScope)
  moreover from assms(2) Some cd have "runScope sc (convertParametersAndType None sig) ?t2 = Inr t'"
    by (simp add: convertFunctionDeclaration_def)
  ultimately show ?thesis
    using depth_convert(7) by (blast intro: wf_runScope)
qed

lemma wf_convertClassOrInterfaceDeclaration:
  assumes "wf t" "convertClassOrInterfaceDeclaration node name_opt tps heritage members t = Inr t'"
  shows "wf t'"
proof (cases name_opt)
  case None
  with assms(2) show ?thesis by (simp add: convertClassOrInterfaceDeclaration_def)
next
  case (Some name)
  obtain sc t1 where cd: "Transformer_createDeclaration node (Some name) t = (sc, t1)"
    by (cases "Transformer_createDeclaration node (Some name) t")
  from assms(2) Some cd
  have "runScope sc (convertClassOrInterfaceBody tps heritage members) t1 = Inr t'"
    by (simp add: convertClassOrInterfaceDeclaration_def)
  with wf_createDeclaration [OF assms(1) cd] show ?thesis
    using depth_convertClassOrInterfaceBody by (blast intro: wf_runScope)
qed

lemma wf_convertTypeAliasDeclaration:
  assumes "wf t" "convertTypeAliasDeclaration node name tps type t = Inr t'"
  shows "wf t'"
proof -
  obtain sc t1 where cd: "Transformer_createDeclaration node (Some name) t = (sc, t1)"
    by (cases "Transformer_createDeclaration node (Some name) t")
  from assms(2) cd have "runScope sc (convertTypeAliasBody tps type) t1 = Inr t'"
    by (simp add: convertTypeAliasDeclaration_def)
  with wf_createDeclaration [OF assms(1) cd] show ?thesis
    using depth_convertTypeAliasBody by (blast intro: wf_runScope)
qed

lemma wf_convertVariableStatement:
  assumes "wf t" "convertVariableStatement node decls t = Inr t'"
  shows "wf t'"
proof -
  from assms(2) obtain name type where decls: "decls = [VariableDeclaration (BindingIdentifier name) type]"
    by (auto simp: convertVariableStatement_def
        split: list.splits ts_variable_declaration.splits ts_binding_name.splits)
  obtain sc t1 where cd: "Transformer_createDeclaration node (Some name) t = (sc, t1)"
    by (cases "Transformer_createDeclaration node (Some name) t")
  from assms(2) decls cd have "runScope sc (convertTypeNode_opt type) t1 = Inr t'"
    by (simp add: convertVariableStatement_def)
  with wf_createDeclaration [OF assms(1) cd] show ?thesis
    using depth_convert(2) by (blast intro: wf_runScope)
qed

lemma wf_convertNamespaceDeclaration:
  assumes "wf t" "convertNamespaceDeclaration node isGlobal name moduleBody t = Inr t'"
  shows "wf t'"
proof (cases "\<exists>ident. \<not> isGlobal \<and> name = ModuleIdentifier ident")
  case True
  then obtain ident where name: "name = ModuleIdentifier ident" and g: "\<not> isGlobal" by blast
  obtain sc t1 where cd: "Transformer_createDeclaration node (Some ident) t = (sc, t1)"
    by (cases "Transformer_createDeclaration node (Some ident) t")
  let ?t2 = "applyScope sc (pushIdentifierReference ident) t1"
  from wf_createDeclaration [OF assms(1) cd] have "wf ?t2" "sc < length (scopeObjs ?t2)"
    by (simp_all add: wf_applyScope)
  moreover from assms(2) name g cd have "runScope sc (convertNamespace moduleBody) ?t2 = Inr t'"
    by (simp add: convertNamespaceDeclaration_def)
  ultimately show ?thesis
    using depth_namespace(1) by (blast intro: wf_runScope)
next
  case False
  obtain sc t1 where cd: "Transformer_createDeclaration node None t = (sc, t1)"
    by (cases "Transformer_createDeclaration node None t")
  from assms(2) False cd have "runScope sc (convertNamespace moduleBody) t1 = Inr t'"
    by (cases name; cases isGlobal) (simp_all add: convertNamespaceDeclaration_def)
  with wf_createDeclaration [OF assms(1) cd] show ?thesis
    using depth_namespace(1) by (blast intro: wf_runScope)
qed

lemma wf_convertExportDeclaration:
  "wf t \<Longrightarrow> convertExportDeclaration node t = Inr t' \<Longrightarrow> wf t'"
  by (induction node t rule: convertExportDeclaration.induct)
     (auto split: sum.splits option.splits ts_export_clause.splits intro: wf_pushNode)

lemma wf_convertImportDeclaration:
  "wf t \<Longrightarrow> convertImportDeclaration node t = Inr t' \<Longrightarrow> wf t'"
  by (induction node t rule: convertImportDeclaration.induct)
     (auto split: sum.splits simp: Let_def intro: wf_pushNode)

lemma wf_convertStatement:
  "wf t \<Longrightarrow> convertStatement node t = Inr t' \<Longrightarrow> wf t'"
  unfolding convertStatement_def
  by (cases "kind node")
     (auto simp: removeStatement_def
       intro: wf_convertEnumDeclaration wf_convertFunctionDeclaration
         wf_convertClassOrInterfaceDeclaration wf_convertTypeAliasDeclaration
         wf_convertVariableStatement wf_convertNamespaceDeclaration wf_convertExportDeclaration
         wf_convertImportDeclaration wf_pushNode)

lemma wf_convertStatements:
  "wf t \<Longrightarrow> convertStatements stmts t = Inr t' \<Longrightarrow> wf t'"
  by (induction stmts arbitrary: t) (auto split: sum.splits dest: wf_convertStatement)

lemma wf_transform: "transform stmts counter = Inr t \<Longrightarrow> wf t"
  unfolding transform_def using wf_newTransformer by (rule wf_convertStatements)


lemma is_bound_Nil [simp]: "\<not> is_bound [] name"
  by (simp add: is_bound_def)



section \<open>Claims about the Scope Tracker and the Graph Builder\<close>

subsection \<open>Example inputs\<close>

text \<open>
  A scope state as a fresh \<open>DeclarationScope\<close> has it, with the counter at its initial
  value 1.
\<close>

definition fresh_scope :: scope_state where
  "fresh_scope = \<lparr>IDs = 1, scopes = [], params = []\<rparr>"

definition ident :: "string \<Rightarrow> nat \<Rightarrow> nat \<Rightarrow> ts_identifier" where
  "ident name s e = TsIdentifier name name s e"

definition typeRef :: "string \<Rightarrow> nat \<Rightarrow> nat \<Rightarrow> ts_type" where
  "typeRef name s e = TypeReference (EntityIdentifier (ident name s e)) None"

text \<open>The signature of \<open>function f<T>(x: T, y: Bar): T\<close>.\<close>

definition generic_signature :: ts_signature where
  "generic_signature =
     Signature (Some [TypeParameter (ident ''T'' 11 12) None None])
       [Some (typeRef ''T'' 17 18), Some (typeRef ''Bar'' 23 26)] (Some (typeRef ''T'' 29 30))"

text \<open>
  The body of \<open>type Keys<T> = T extends Foo ? { [K in keyof T]: K } : never\<close>.
\<close>

definition alias_body :: ts_type where
  "alias_body =
     ConditionalType (typeRef ''T'' 15 16) (typeRef ''Foo'' 25 28)
       (MappedType (TypeParameter (ident ''K'' 34 35) (Some (TypeOperator (typeRef ''T'' 45 46))) None)
          (Some (typeRef ''K'' 49 50)) None)
       IgnoredTypeNode"

text \<open>
  The statements of \<open>namespace N { namespace A { } type X = A.B.C; type Y = A.B; }\<close>,
  whose first member binds \<open>A\<close> in the scope of the namespace.
\<close>

definition qualified_A_B :: ts_entity_name where
  "qualified_A_B = QualifiedName (EntityIdentifier (ident ''A'' 40 41)) (ident ''B'' 42 43) 40 43"

definition namespace_body :: "ts_type \<Rightarrow> ts_statement list" where
  "namespace_body type =
     [Statement 13 14 29 (ModuleDeclaration False (ModuleIdentifier (ident ''A'' 24 25)) (Some [])),
      Statement 29 30 46 (TypeAliasDeclaration (ident ''X'' 35 36) None type)]"

definition type_A_B :: ts_type where
  "type_A_B = TypeReference qualified_A_B None"

definition type_A_B_C :: ts_type where
  "type_A_B_C = TypeReference (QualifiedName qualified_A_B (ident ''C'' 44 45) 40 45) None"


definition class_type_parameters :: "ts_type_parameter list option" where
  "class_type_parameters = Some [TypeParameter (ident ''T'' 10 11) None None]"

definition class_heritage :: "ts_heritage_type list list option" where
  "class_heritage =
     Some [[ExpressionWithTypeArguments (IdentifierExpression (ident ''Base'' 20 24))
              (Some [typeRef ''T'' 25 26])]]"

definition class_members :: "ts_member list" where
  "class_members = [SignatureMember (Some PlainPropertyName) generic_signature]"




lemma String_of_nat_small:
  "String_of_nat (Suc 0) = ''1''" "String_of_nat 1 = ''1''" "String_of_nat 2 = ''2''"
  "String_of_nat 3 = ''3''" "String_of_nat (Suc (Suc 0)) = ''2''"
  "String_of_nat (Suc (Suc (Suc 0))) = ''3''"
  by code_simp+

lemma popScope_1: "popScope 1 s = s\<lparr>scopes := tl (scopes s)\<rparr>"
  by (simp add: popScope.simps)

lemmas scope_eval =
  andThen_def pushScope_def pushTypeVariable_def pushReference_def pushIdentifierReference_def
  createIdentifier_def createReference_def pushRaw_def is_bound_def set_has_def set_add_def
  popScope_1 popScope.simps String_of_nat_small convertTypeAliasBody_def
  convertClassOrInterfaceBody_def convertHeritageClauses_def

lemmas example_defs =
  fresh_scope_def ident_def typeRef_def generic_signature_def alias_body_def qualified_A_B_def
  namespace_body_def type_A_B_def type_A_B_C_def class_type_parameters_def class_heritage_def
  class_members_def

subsection \<open>Claim C1: declaration merging\<close>



subsection \<open>Claim C3: scope balance\<close>

text \<open>
  Claim C3. Whenever the walk of a declaration subtree completes (it does not raise), the
  depth of the scope stack after it equals the depth before it: for the conversion of
  parameters and return type, for a type-alias body, for a class or interface body, for a
  namespace body, for the members of a type literal and for every type node.
\<close>

theorem scope_balance:
  "(\<forall>name sig s s'. convertParametersAndType name sig s = Inr s' \<longrightarrow> depth s' = depth s)
   \<and> (\<forall>tps type s s'. convertTypeAliasBody tps type s = Inr s' \<longrightarrow> depth s' = depth s)
   \<and> (\<forall>tps heritage members s s'.
         convertClassOrInterfaceBody tps heritage members s = Inr s' \<longrightarrow> depth s' = depth s)
   \<and> (\<forall>moduleBody s s'. convertNamespace moduleBody s = Inr s' \<longrightarrow> depth s' = depth s)
   \<and> (\<forall>members s s'. convertMembers members s = Inr s' \<longrightarrow> depth s' = depth s)
   \<and> (\<forall>node s s'. convertTypeNode node s = Inr s' \<longrightarrow> depth s' = depth s)"
proof (intro conjI allI impI)
  fix name sig s s'
  assume "convertParametersAndType name sig s = Inr s'"
  then show "depth s' = depth s" by (rule depth_convert(7) [rule_format, symmetric])
next
  fix tps type s s'
  assume "convertTypeAliasBody tps type s = Inr s'"
  then show "depth s' = depth s" by (rule depth_convertTypeAliasBody [symmetric])
next
  fix tps heritage members s s'
  assume "convertClassOrInterfaceBody tps heritage members s = Inr s'"
  then show "depth s' = depth s" by (rule depth_convertClassOrInterfaceBody [symmetric])
next
  fix moduleBody s s'
  assume "convertNamespace moduleBody s = Inr s'"
  then show "depth s' = depth s" by (rule depth_namespace(1) [rule_format, symmetric])
next
  fix members s s'
  assume "convertMembers members s = Inr s'"
  then show "depth s' = depth s" by (rule depth_convert(6) [rule_format, symmetric])
next
  fix node s s'
  assume "convertTypeNode node s = Inr s'"
  then show "depth s' = depth s" by (rule depth_convert(1) [rule_format, symmetric])
qed

theorem scope_balance_witness:
  "(\<exists>s'. convertParametersAndType None generic_signature fresh_scope = Inr s'
          \<and> depth s' = depth fresh_scope)
   \<and> (\<exists>s'. convertTypeAliasBody class_type_parameters alias_body fresh_scope = Inr s'
          \<and> depth s' = depth fresh_scope)
   \<and> (\<exists>s'. convertClassOrInterfaceBody class_type_parameters class_heritage class_members fresh_scope
             = Inr s'
          \<and> depth s' = depth fresh_scope)
   \<and> (\<exists>s'. convertNamespace (Some (namespace_body type_A_B_C)) fresh_scope = Inr s'
          \<and> depth s' = depth fresh_scope)
   \<and> (\<exists>s'. convertMembers class_members (pushScope fresh_scope) = Inr s'
          \<and> depth s' = depth (pushScope fresh_scope))
   \<and> (\<exists>s'. convertTypeNode alias_body (pushScope fresh_scope) = Inr s'
          \<and> depth s' = depth (pushScope fresh_scope))"
proof -
  have r1: "convertParametersAndType None generic_signature fresh_scope =
      Inr \<lparr>IDs = 2, scopes = [],
           params = [AssignmentPattern (Identifier ''1'' None) (Identifier ''Bar'' (Some (23, 26)))]\<rparr>"
    by (simp add: example_defs scope_eval)
  have r2: "convertTypeAliasBody class_type_parameters alias_body fresh_scope =
      Inr \<lparr>IDs = 2, scopes = [],
           params = [AssignmentPattern (Identifier ''1'' None) (Identifier ''Foo'' (Some (25, 28)))]\<rparr>"
    by (simp add: example_defs scope_eval)
  have r3: "convertClassOrInterfaceBody class_type_parameters class_heritage class_members fresh_scope =
      Inr \<lparr>IDs = 3, scopes = [],
           params = [AssignmentPattern (Identifier ''1'' None) (Identifier ''Base'' (Some (20, 24))),
                     AssignmentPattern (Identifier ''2'' None) (Identifier ''Bar'' (Some (23, 26)))]\<rparr>"
    by (simp add: example_defs scope_eval)
  have r4: "convertNamespace (Some (namespace_body type_A_B_C)) fresh_scope =
      Inr \<lparr>IDs = 2, scopes = [],
           params = [AssignmentPattern (Identifier ''1'' None)
                      (MemberExpression
                         (MemberExpression (Identifier ''A'' (Some (40, 41)))
                            (Identifier ''B'' (Some (42, 43))) 40 43)
                         (Identifier ''C'' (Some (44, 45))) 40 45)]\<rparr>"
    by (simp add: example_defs scope_eval)
  have r5: "convertMembers class_members (pushScope fresh_scope) =
      Inr \<lparr>IDs = 2, scopes = [[]],
           params = [AssignmentPattern (Identifier ''1'' None) (Identifier ''Bar'' (Some (23, 26)))]\<rparr>"
    by (simp add: example_defs scope_eval)
  have r6: "convertTypeNode alias_body (pushScope fresh_scope) =
      Inr \<lparr>IDs = 4, scopes = [[]],
           params = [AssignmentPattern (Identifier ''1'' None) (Identifier ''T'' (Some (15, 16))),
                     AssignmentPattern (Identifier ''2'' None) (Identifier ''Foo'' (Some (25, 28))),
                     AssignmentPattern (Identifier ''3'' None) (Identifier ''T'' (Some (45, 46)))]\<rparr>"
    by (simp add: example_defs scope_eval)
  note balance = scope_balance
  obtain s1 where q1: "convertParametersAndType None generic_signature fresh_scope = Inr s1"
    using r1 by (rule that)
  obtain s2 where q2: "convertTypeAliasBody class_type_parameters alias_body fresh_scope = Inr s2"
    using r2 by (rule that)
  obtain s3 where q3: "convertClassOrInterfaceBody class_type_parameters class_heritage
      class_members fresh_scope = Inr s3"
    using r3 by (rule that)
  obtain s4 where q4: "convertNamespace (Some (namespace_body type_A_B_C)) fresh_scope = Inr s4"
    using r4 by (rule that)
  obtain s5 where q5: "convertMembers class_members (pushScope fresh_scope) = Inr s5"
    using r5 by (rule that)
  obtain s6 where q6: "convertTypeNode alias_body (pushScope fresh_scope) = Inr s6"
    using r6 by (rule that)
  have "depth s1 = depth fresh_scope"
    using q1 by (rule balance [THEN conjunct1, rule_format])
  with q1 have c1: "\<exists>s'. convertParametersAndType None generic_signature fresh_scope = Inr s'
      \<and> depth s' = depth fresh_scope"
    by (intro exI conjI)
  have "depth s2 = depth fresh_scope"
    using q2 by (rule balance [THEN conjunct2, THEN conjunct1, rule_format])
  with q2 have c2: "\<exists>s'. convertTypeAliasBody class_type_parameters alias_body fresh_scope = Inr s'
      \<and> depth s' = depth fresh_scope"
    by (intro exI conjI)
  have "depth s3 = depth fresh_scope"
    using q3 by (rule balance [THEN conjunct2, THEN conjunct2, THEN conjunct1, rule_format])
  with q3 have c3: "\<exists>s'. convertClassOrInterfaceBody class_type_parameters class_heritage
      class_members fresh_scope = Inr s' \<and> depth s' = depth fresh_scope"
    by (intro exI conjI)
  have "depth s4 = depth fresh_scope"
    using q4
    by (rule balance [THEN conjunct2, THEN conjunct2, THEN conjunct2, THEN conjunct1, rule_format])
  with q4 have c4: "\<exists>s'. convertNamespace (Some (namespace_body type_A_B_C)) fresh_scope = Inr s'
      \<and> depth s' = depth fresh_scope"
    by (intro exI conjI)
  have "depth s5 = depth (pushScope fresh_scope)"
    using q5
    by (rule balance [THEN conjunct2, THEN conjunct2, THEN conjunct2, THEN conjunct2,
          THEN conjunct1, rule_format])
  with q5 have c5: "\<exists>s'. convertMembers class_members (pushScope fresh_scope) = Inr s'
      \<and> depth s' = depth (pushScope fresh_scope)"
    by (intro exI conjI)
  have "depth s6 = depth (pushScope fresh_scope)"
    using q6
    by (rule balance [THEN conjunct2, THEN conjunct2, THEN conjunct2, THEN conjunct2,
          THEN conjunct2, rule_format])
  with q6 have c6: "\<exists>s'. convertTypeNode alias_body (pushScope fresh_scope) = Inr s'
      \<and> depth s' = depth (pushScope fresh_scope)"
    by (intro exI conjI)
  show ?thesis by (intro conjI c1 c2 c3 c4 c5 c6)
qed


subsection \<open>Claim C2: reference suppression\<close>

text \<open>
  Claim C2 says that a reference is emitted if and only if the left-most identifier of the
  name is not bound in any scope of the stack. \<open>pushReference\<close> finds that identifier
  only for an identifier and for a member expression whose object is an identifier. Inside
  \<open>namespace N { namespace A { } type X = ...; }\<close> the name \<open>A\<close> is bound: for
  \<open>type X = A.B\<close> no reference is emitted, but for \<open>type X = A.B.C\<close> the reference
  to \<open>A.B.C\<close> is emitted although its root \<open>A\<close> is bound. The generic function
  \<open>function f<T>(x: T, y: Bar): T\<close> behaves as the claim says: no reference to \<open>T\<close>,
  one reference to \<open>Bar\<close>.
\<close>

theorem pushReference_checks_one_level_only:
  "convertNamespace (Some (namespace_body type_A_B)) fresh_scope =
     Inr \<lparr>IDs = 1, scopes = [], params = []\<rparr>
   \<and> convertNamespace (Some (namespace_body type_A_B_C)) fresh_scope =
     Inr \<lparr>IDs = 2, scopes = [],
          params = [AssignmentPattern (Identifier ''1'' None)
                      (MemberExpression
                         (MemberExpression (Identifier ''A'' (Some (40, 41)))
                            (Identifier ''B'' (Some (42, 43))) 40 43)
                         (Identifier ''C'' (Some (44, 45))) 40 45)]\<rparr>
   \<and> convertParametersAndType None generic_signature fresh_scope =
     Inr \<lparr>IDs = 2, scopes = [],
          params = [AssignmentPattern (Identifier ''1'' None) (Identifier ''Bar'' (Some (23, 26)))]\<rparr>"
  by (simp add: example_defs scope_eval)

subsection \<open>Claim C9: distinct synthetic names\<close>

lemma IDs_pushReference: "IDs s \<le> IDs (pushReference e s)"
  by (simp add: pushReference_def pushRaw_def createReference_def Let_def split: option.splits)

text \<open>
  Claim C9. Every call of \<open>createReference\<close> leaves the counter strictly larger than it
  found it, and two calls, the second of which starts from a counter that is at least
  what the first call left, give left-hand identifiers with different names, whatever
  the two referenced expressions are. (The counter is a JavaScript number; the statement
  is about counter values that it represents exactly, those below \<open>2^53\<close>.)
\<close>

theorem createReference_fresh_names:
  "createReference e1 n = (r1, n1) \<Longrightarrow> n1 \<le> m \<Longrightarrow> createReference e2 m = (r2, m2) \<Longrightarrow>
   m \<le> MAX_SAFE_INTEGER \<Longrightarrow>
     n < n1 \<and> m < m2 \<and> left r1 \<noteq> left r2"
proof -
  assume first: "createReference e1 n = (r1, n1)" and later: "n1 \<le> m"
    and second: "createReference e2 m = (r2, m2)"
  from first have n1: "n1 = n + 1" and l1: "left r1 = Identifier (String_of_nat n) None"
    by (auto simp: createReference_def)
  from second have m2: "m2 = m + 1" and l2: "left r2 = Identifier (String_of_nat m) None"
    by (auto simp: createReference_def)
  from n1 later have "n \<noteq> m" by simp
  then have "String_of_nat n \<noteq> String_of_nat m" using String_of_nat_inj by blast
  with n1 m2 l1 l2 show ?thesis by simp
qed

theorem createReference_fresh_names_witness:
  "createReference (Identifier ''Bar'' None) 1
     = (AssignmentPattern (Identifier ''1'' None) (Identifier ''Bar'' None), 2)
   \<and> createReference (Identifier ''Bar'' None) 2
     = (AssignmentPattern (Identifier ''2'' None) (Identifier ''Bar'' None), 3)
   \<and> (2::nat) \<le> MAX_SAFE_INTEGER
   \<and> left (AssignmentPattern (Identifier ''1'' None) (Identifier ''Bar'' None))
       \<noteq> left (AssignmentPattern (Identifier ''2'' None) (Identifier ''Bar'' None))"
proof -
  have first: "createReference (Identifier ''Bar'' None) 1
     = (AssignmentPattern (Identifier ''1'' None) (Identifier ''Bar'' None), 2)"
    by (simp add: createReference_def String_of_nat_small)
  have second: "createReference (Identifier ''Bar'' None) 2
     = (AssignmentPattern (Identifier ''2'' None) (Identifier ''Bar'' None), 3)"
    by (simp add: createReference_def String_of_nat_small)
  have safe: "(2::nat) \<le> MAX_SAFE_INTEGER" by (simp add: MAX_SAFE_INTEGER_def)
  from createReference_fresh_names [OF first order_refl second safe] first second safe
  show ?thesis by simp
qed

section \<open>Claims about synthesized names\<close>

text \<open>
  Claim C8. For every hint, \<open>uniqName\<close> returns the hint prefixed with the least number
  of underscores (possibly none) for which the result is not in the declared-name set, and
  adds the result to that set; so the name differs from every declared name, and any later
  call, on a set that still contains it, returns a different name.
\<close>

theorem uniqName_least_fresh:
  "uniqName hint declaredNames = (name, declaredNames') \<Longrightarrow>
     (\<exists>k. name = underscored k hint \<and> (\<forall>j<k. underscored j hint \<in> set declaredNames))
     \<and> name \<notin> set declaredNames
     \<and> set declaredNames' = insert name (set declaredNames)
     \<and> (\<forall>later hint'. set declaredNames' \<subseteq> set later \<longrightarrow> fst (uniqName hint' later) \<noteq> name)"
proof -
  assume call: "uniqName hint declaredNames = (name, declaredNames')"
  then have name: "name = uniqName_loop declaredNames hint"
    and names': "declaredNames' = set_add name declaredNames"
    by (auto simp: uniqName_def Let_def)
  obtain k where k: "name = underscored k hint" "underscored k hint \<notin> set declaredNames"
      "\<forall>j<k. underscored j hint \<in> set declaredNames"
    using uniqName_loop_least [of declaredNames hint] name by auto
  have grown: "set declaredNames' = insert name (set declaredNames)"
    using names' by (auto simp: set_add_def)
  have "fst (uniqName hint' later) \<noteq> name" if sub: "set declaredNames' \<subseteq> set later"
    for later hint'
  proof -
    obtain k' where "uniqName_loop later hint' = underscored k' hint'"
        "underscored k' hint' \<notin> set later"
      using uniqName_loop_least [of later hint'] by auto
    then have "fst (uniqName hint' later) \<notin> set later"
      by (simp add: uniqName_def Let_def)
    moreover have "name \<in> set later" using sub grown by auto
    ultimately show ?thesis by auto
  qed
  with k grown show ?thesis by auto
qed

theorem uniqName_least_fresh_witness:
  "uniqName ''export_default'' [''export_default'', ''x'', ''_export_default'']
     = (''__export_default'', [''export_default'', ''x'', ''_export_default'', ''__export_default''])
   \<and> ''__export_default'' = underscored 2 ''export_default''
   \<and> ''__export_default'' \<notin> set [''export_default'', ''x'', ''_export_default'']
   \<and> fst (uniqName ''export_default''
         [''export_default'', ''x'', ''_export_default'', ''__export_default''])
       \<noteq> ''__export_default''"
proof -
  have call: "uniqName ''export_default'' [''export_default'', ''x'', ''_export_default'']
     = (''__export_default'', [''export_default'', ''x'', ''_export_default'', ''__export_default''])"
    by (simp add: uniqName_def uniqName_loop.simps set_has_def set_add_def Let_def)
  from uniqName_least_fresh [OF call] call show ?thesis
    by (simp add: underscored_def numeral_2_eq_2)
qed

end
